theory Spec2Isabelle
  imports Complex_Main "HOL-Library.AList"
begin

section \<open>JavaScript values\<close>

text \<open>
  The values that travel through the pages route module (query strings, the results of
  the user's data-fetching functions, page props, thrown values) are JavaScript values.
  Numbers are rationals (the module only asks whether a number is a positive integer),
  an object is its list of own enumerable properties in insertion order, and a promise
  is its settled state: \<open>JPromise True v\<close> is fulfilled with \<open>v\<close>,
  \<open>JPromise False v\<close> is rejected with \<open>v\<close>.
\<close>

datatype jsval =
    JUndefined
  | JNull
  | JBool bool
  | JNum rat
  | JStr string
  | JArr "jsval list"
  | JObj "(string \<times> jsval) list"
  | JPromise bool jsval

type_synonym jsobj = "(string \<times> jsval) list"

text \<open>JavaScript truthiness, as used by \<open>&&\<close>, \<open>!!\<close> and \<open>if\<close>.\<close>

fun truthy :: "jsval \<Rightarrow> bool" where
  "truthy JUndefined = False"
| "truthy JNull = False"
| "truthy (JBool b) = b"
| "truthy (JNum n) = (n \<noteq> 0)"
| "truthy (JStr s) = (s \<noteq> [])"
| "truthy (JArr xs) = True"
| "truthy (JObj kvs) = True"
| "truthy (JPromise ok v) = True"

text \<open>\<open>typeof v === 'object'\<close>: objects, arrays, promises and \<open>null\<close>.\<close>

fun typeof_object :: "jsval \<Rightarrow> bool" where
  "typeof_object JNull = True"
| "typeof_object (JArr xs) = True"
| "typeof_object (JObj kvs) = True"
| "typeof_object (JPromise ok v) = True"
| "typeof_object v = False"

text \<open>\<open>key in obj\<close> and \<open>obj.key\<close> (\<open>undefined\<close> when the key is absent).\<close>

definition has_key :: "string \<Rightarrow> jsobj \<Rightarrow> bool" where
  "has_key k obj = (map_of obj k \<noteq> None)"

definition get_key :: "jsobj \<Rightarrow> string \<Rightarrow> jsval" where
  "get_key obj k = (case map_of obj k of None \<Rightarrow> JUndefined | Some v \<Rightarrow> v)"

text \<open>\<open>delete obj.key\<close>.\<close>

definition delete_key :: "string \<Rightarrow> jsobj \<Rightarrow> jsobj" where
  "delete_key k obj = AList.delete k obj"

text \<open>
  The own enumerable properties that \<open>Object.assign\<close> copies from a source: the
  entries of an object, the indexed elements of an array or of a string, nothing for
  the other values.
\<close>

fun digit_char :: "nat \<Rightarrow> char" where
  "digit_char n = (''0123456789'' ! (n mod 10))"

fun index_key :: "nat \<Rightarrow> nat \<Rightarrow> string" where
  "index_key 0 n = [digit_char n]"
| "index_key (Suc fuel) n =
     (if n < 10 then [digit_char n] else index_key fuel (n div 10) @ [digit_char n])"

definition index_keys :: "nat \<Rightarrow> string list" where
  "index_keys len = map (\<lambda>i. index_key i i) [0..<len]"

fun own_enumerable :: "jsval \<Rightarrow> jsobj" where
  "own_enumerable (JObj kvs) = kvs"
| "own_enumerable (JArr xs) = zip (index_keys (length xs)) xs"
| "own_enumerable (JStr s) = zip (index_keys (length s)) (map (\<lambda>c. JStr [c]) s)"
| "own_enumerable v = []"

text \<open>
  The order in which JavaScript lists the own properties of an object: first the keys
  that are array indices (canonical decimal numerals below \<open>2^32 - 1 = 4294967295\<close>) in ascending
  numeric order, then the other keys in the order of their insertion.
\<close>

definition digit_value :: "char \<Rightarrow> int" where
  "digit_value c = of_char c - 48"

definition numeral_value :: "string \<Rightarrow> int" where
  "numeral_value s = foldl (\<lambda>n c. 10 * n + digit_value c) 0 s"

definition is_array_index :: "string \<Rightarrow> bool" where
  "is_array_index s =
     (s \<noteq> [] \<and> list_all (\<lambda>c. c \<in> set ''0123456789'') s \<and>
      (s = ''0'' \<or> hd s \<noteq> CHR ''0'') \<and> numeral_value s < 4294967295)"

definition property_order :: "jsobj \<Rightarrow> jsobj" where
  "property_order kvs =
     sort_key (\<lambda>kv. numeral_value (fst kv)) (filter (\<lambda>kv. is_array_index (fst kv)) kvs)
     @ filter (\<lambda>kv. \<not> is_array_index (fst kv)) kvs"

text \<open>
  \<open>Object.assign({}, a, b)\<close>: the properties of \<open>a\<close>, then those of \<open>b\<close>, are
  assigned to a new object, a later value replacing an earlier one and keeping the
  key's place; the new object lists its properties in the order above.
\<close>

definition assign_into :: "jsobj \<Rightarrow> jsval \<Rightarrow> jsobj" where
  "assign_into target src = foldl (\<lambda>acc (k, v). AList.update k v acc) target (own_enumerable src)"

definition Object_assign :: "jsval \<Rightarrow> jsval \<Rightarrow> jsval" where
  "Object_assign a b = JObj (property_order (assign_into (assign_into [] a) b))"

text \<open>\<open>Number.isInteger\<close> on a number.\<close>

definition is_integer :: "rat \<Rightarrow> bool" where
  "is_integer r = (snd (quotient_of r) = 1)"


section \<open>The data model of the pages route module\<close>

subsection \<open>Errors\<close>

text \<open>
  Every \<open>throw\<close> of \<open>PagesRouteModule\<close> is one constructor, carrying what the
  message interpolates. The message constants imported from \<open>lib/constants\<close> are
  outside the given sources, so an error is identified by its throw site and not by
  its text. \<open>Thrown v\<close> is a value thrown by code outside the module: a user
  function, a component or a helper.
\<close>

datatype error =
    ServerPropsExportError string
  | SsgGetInitialPropsConflict string
  | ServerPropsGetInitPropsConflict string
  | ServerPropsSsgConflict string
  | ServerPropsOutputExport
  | NonDynamicGetStaticPaths string
  | GetStaticPathsWithoutGetStaticProps string
  | MissingGetStaticPaths string
  | GsspComponentMember string string
  | NotAReactComponent string
  | StaticStatusPageGetInitialProps string
  | MixedNotFoundRedirect string
  | NotFoundOn404
  | RedirectDuringPrerender string
  | IsrOutputExport
  | InvalidStaticProps
  | InvalidServerSideProps
  | EdgeDocumentGetInitialProps
  | InvalidDocumentInitialProps
  | InvalidRevalidate jsval string
  | TypeErrorNullToObject
  | Thrown jsval

subsection \<open>Userland module and components\<close>

text \<open>
  A function is compared by reference in the source
  (\<open>getInitialProps !== origGetInitialProps\<close>); the model gives each function
  reference a number. \<open>comp_members\<close> lists the property names for which
  \<open>name in Component\<close> holds, and \<open>comp_isValidElementType\<close> is what
  \<open>react-is\<close> answers for the component.
\<close>

record component =
  comp_getInitialProps :: "nat option"
  comp_origGetInitialProps :: "nat option"
  comp_members :: "string list"
  comp_isValidElementType :: bool

record app_component =
  app_getInitialProps :: "nat option"
  app_origGetInitialProps :: "nat option"
  app_isValidElementType :: bool

record document_component =
  doc_getInitialProps :: "nat option"
  doc_builtin_functional :: bool
  doc_isValidElementType :: bool

datatype amp_config = AmpBool bool | AmpHybrid

record incoming_message =
  im_id :: nat
  im_nextStrippedLocale :: bool

record next_request =
  req_url :: string
  req_pathname :: string
  req_method :: string
  req_cookies :: jsval
  req_headers :: jsval
  req_body :: jsval
  req_originalRequest :: "incoming_message option"

text \<open>The context objects handed to the user's data-fetching functions. An optional
  key that the source spreads in conditionally is \<open>None\<close> when it is left out.\<close>

record gsp_context =
  gsp_params :: "jsobj option"
  gsp_preview :: "bool option"
  gsp_previewData :: "jsval option"
  gsp_locales :: "string list option"
  gsp_locale :: "string option"
  gsp_defaultLocale :: "string option"

datatype gssp_request = NodeRequest incoming_message | WebRequest next_request

record gssp_context =
  gssp_req :: gssp_request
  gssp_query :: jsobj
  gssp_resolvedUrl :: string
  gssp_params :: "jsobj option option"
  gssp_preview :: "bool option"
  gssp_previewData :: "jsval option"
  gssp_locales :: "string list option"
  gssp_locale :: "string option"
  gssp_defaultLocale :: "string option"

text \<open>
  A user function either throws a value (\<open>Inl\<close>) or resolves to an object
  (\<open>Inr\<close>). \<open>getServerSideProps\<close> also holds the response: the flag paired with
  its outcome says whether it has sent the response by the time it settles.
\<close>

type_synonym getStaticProps_fn = "gsp_context \<Rightarrow> jsval + jsobj"
type_synonym getServerSideProps_fn = "gssp_context \<Rightarrow> (jsval + jsobj) \<times> bool"

record userland =
  default_export :: component
  config_amp :: "amp_config option"
  getStaticProps :: "getStaticProps_fn option"
  getStaticPaths :: "unit option"
  getServerSideProps :: "getServerSideProps_fn option"

record route_render_options =
  ro_dev :: bool
  ro_buildId :: string
  ro_disableOptimizedLoading :: bool

record pages_route_config =
  cfg_output :: "string option"
  cfg_basePath :: string
  cfg_assetPrefix :: string
  cfg_amp_canonicalBase :: "string option"
  cfg_i18n_domains :: "jsval option"

record pages_module =
  pm_userland :: userland
  pm_App :: app_component
  pm_Document :: document_component
  pm_config :: pages_route_config
  pm_isDynamic :: bool
  pm_definition_page :: string
  pm_amp :: amp_config
  pm_renderOpts :: route_render_options

record pages_module_options =
  opt_renderOpts :: route_render_options
  opt_userland :: userland
  opt_page :: string
  opt_App :: app_component
  opt_Document :: document_component
  opt_config :: pages_route_config


subsection \<open>Requests, props, metadata and results\<close>

record render_opts_context =
  ctx_page :: string
  ctx_statusCode :: nat
  ctx_ampPath :: "string option"
  ctx_customServer :: "bool option"
  ctx_distDir :: "string option"
  ctx_isDataReq :: "bool option"
  ctx_resolvedAsPath :: "string option"
  ctx_query :: jsobj
  ctx_resolvedUrl :: string
  ctx_err :: "jsval option"
  ctx_runtime :: "string option"
  ctx_runtimeConfig :: "jsval option"
  ctx_locale :: "string option"
  ctx_locales :: "string list option"
  ctx_defaultLocale :: "string option"
  ctx_isLocaleDomain :: "bool option"

text \<open>
  \<open>PagesRouteHandlerContext\<close>. Of the manifests the model keeps the two that the
  module reads itself: the preview settings of the prerender manifest (\<open>None\<close> when
  there is no prerender manifest) and the react-loadable manifest, a lookup from a
  module name to its id and files.
\<close>

record handler_context =
  hc_export :: bool
  hc_params :: "jsobj option"
  hc_prerender_preview :: "jsval option"
  hc_reactLoadable :: "string \<Rightarrow> (jsval \<times> string list) option"
  hc_renderOpts :: render_opts_context

text \<open>\<open>PagesRouteHandlerRenderContext\<close>: the handler context with the raw request
  and the preview state (the response is part of the state threaded below).\<close>

record render_context =
  rc_context :: handler_context
  rc_req :: "incoming_message option"
  rc_isPreviewMode :: bool
  rc_previewData :: jsval

text \<open>The type \<open>Props\<close> of the source, with the remaining keys that the App's
  initial props may carry.\<close>

record props =
  props_N_PREVIEW :: "bool option"
  props_STATIC_PROPS_ID :: "bool option"
  props_SERVER_PROPS_ID :: "bool option"
  props_pageProps :: "jsval option"
  props_rest :: jsobj

record render_result_metadata =
  md_devOnlyCacheBusterQueryString :: "string option"
  md_isNotFound :: "bool option"
  md_isRedirect :: "bool option"
  md_revalidate :: "jsval option"
  md_pageData :: "props option"

text \<open>\<open>new RenderResult(response, metadata)\<close>; the response is \<open>None\<close> for
  \<open>null\<close>.\<close>

record render_result =
  rr_response :: "string option"
  rr_metadata :: render_result_metadata

record response =
  resp_status :: nat
  resp_body :: "string option"

record transform_context =
  tc_isResSent :: bool
  tc_isDataReq :: bool
  tc_isPreviewMode :: bool

record server_router =
  sr_pathname :: string
  sr_query :: jsobj
  sr_asPath :: string
  sr_basePath :: string
  sr_isFallback :: bool
  sr_locale :: "string option"
  sr_isReady :: bool
  sr_defaultLocale :: "string option"
  sr_locales :: "string list option"
  sr_domainLocales :: "jsval option"
  sr_isPreview :: bool
  sr_isLocaleDomain :: bool

record amp_state =
  ampFirst :: bool
  hasQuery :: bool
  hybrid :: bool

text \<open>The object \<open>ctx\<close> that \<open>render\<close> builds for the \<open>getInitialProps\<close>
  hooks of the App and of the Document.\<close>

record page_ctx =
  pc_err :: "jsval option"
  pc_req :: "incoming_message option"
  pc_has_res :: bool
  pc_pathname :: string
  pc_query :: jsobj
  pc_asPath :: string
  pc_locale :: "string option"
  pc_locales :: "string list option"
  pc_defaultLocale :: "string option"

text \<open>The hydration payload \<open>__NEXT_DATA__\<close>; a key whose value is
  \<open>undefined\<close> is \<open>None\<close>.\<close>

record next_data =
  nd_props :: props
  nd_page :: string
  nd_query :: jsobj
  nd_buildId :: string
  nd_assetPrefix :: "string option"
  nd_runtimeConfig :: "jsval option"
  nd_nextExport :: "bool option"
  nd_autoExport :: "bool option"
  nd_isFallback :: bool
  nd_dynamicIds :: "jsval list option"
  nd_err :: "jsval option"
  nd_gsp :: "bool option"
  nd_gssp :: "bool option"
  nd_customServer :: "bool option"
  nd_gip :: "bool option"
  nd_appGip :: "bool option"
  nd_locale :: "string option"
  nd_locales :: "string list option"
  nd_defaultLocale :: "string option"
  nd_domainLocales :: "jsval option"
  nd_isPreview :: "bool option"
  nd_notFoundSrcPage :: "jsval option"

text \<open>
  \<open>HtmlProps\<close>: the hydration payload and the fields that \<open>render\<close> computes.
  The remaining fields copy configuration and manifests to the Document unchanged and
  are left out.
\<close>

record html_props =
  hp_NEXT_DATA :: next_data
  hp_dangerousAsPath :: string
  hp_canonicalBase :: string
  hp_ampPath :: string
  hp_inAmpMode :: bool
  hp_isDevelopment :: bool
  hp_hybridAmp :: bool
  hp_dynamicImports :: "string list"
  hp_devOnlyCacheBusterQueryString :: "string option"
  hp_locale :: "string option"

text \<open>What \<open>renderDocument\<close> hands back: where the body comes from (the html of
  the Document's initial props, or the shell stream rendered directly), the Document's
  initial props, and the module names reported through \<open>LoadableContext\<close>.\<close>

datatype body_source = FromDocProps string | FromShell string

record document_result =
  dr_body :: body_source
  dr_docProps :: "jsval option"
  dr_loadable :: "string list"


subsection \<open>What runs outside the module\<close>

text \<open>
  \<open>render\<close> calls React, the helpers of the framework and the user's components.
  None of that code is among the sources of the module: each collaborator is a
  parameter, a function from what the module passes to what comes back (\<open>Inl v\<close>
  when it throws \<open>v\<close>). A collaborator that holds the response also says whether it
  has sent it. The streaming helpers are read as functions on the text they carry.
  \<^item> \<open>env_production\<close> is \<open>process.env.NODE_ENV === 'production'\<close>,
    \<open>env_edge_runtime\<close> is \<open>process.env.NEXT_RUNTIME === 'edge'\<close>, \<open>env_now\<close> is the
    text of \<open>Date.now()\<close>.
  \<^item> \<open>env_tryGetPreviewData\<close> is \<open>None\<close> where the function is not available (the
    source tests it before the call); it answers \<open>false\<close> or the preview data.
  \<^item> \<open>env_loadAppInitialProps\<close> is \<open>loadGetInitialProps(App, ...)\<close>,
    \<open>env_loadDocumentInitialProps\<close> is \<open>loadGetInitialProps(Document, documentCtx)\<close>
    with the page rendered through \<open>renderPage\<close>, \<open>env_renderShell\<close> is
    \<open>renderShell(App, Component)\<close>; the last two also report the module names given to
    \<open>LoadableContext\<close>.
  \<^item> \<open>env_renderToString\<close> renders the Document with the html props and reports the
    names in \<open>docComponentsRendered\<close>; \<open>env_bodyResult\<close> is \<open>bodyResult(suffix)\<close>
    read to the end; \<open>env_renderResultToResponse\<close> is the transformer of the result.
  \<^item> The other fields are the helpers of the same name.
  Left out, for they change neither the result nor the log: \<open>Loadable.preloadAll()\<close>
  (taken to succeed), the script loader of the component, the build manifest handed to
  the Document, and the proxy around the response, which only refuses what
  \<open>getServerSideProps\<close> writes after it has resolved.
\<close>

record env =
  env_production :: bool
  env_edge_runtime :: bool
  env_now :: string
  env_isDynamicRoute :: "string \<Rightarrow> bool"
  env_tryGetPreviewData :: "(incoming_message \<Rightarrow> jsval \<Rightarrow> jsval) option"
  env_loadAppInitialProps ::
    "app_component \<Rightarrow> component \<Rightarrow> server_router \<Rightarrow> page_ctx \<Rightarrow> (jsval + props) \<times> bool"
  env_isError :: "jsval \<Rightarrow> bool"
  env_validateGetStaticProps :: "jsobj \<Rightarrow> jsval option"
  env_validateGetServerSideProps :: "jsobj \<Rightarrow> jsval option"
  env_checkRedirectValues :: "jsobj \<Rightarrow> string \<Rightarrow> string \<Rightarrow> jsval + jsobj"
  env_isSerializableProps :: "string \<Rightarrow> string \<Rightarrow> jsval \<Rightarrow> jsval + bool"
  env_JSON_stringify :: "props \<Rightarrow> string"
  env_isInAmpMode :: "amp_state \<Rightarrow> bool"
  env_renderShell :: "props \<Rightarrow> server_router \<Rightarrow> (jsval + string) \<times> string list"
  env_loadDocumentInitialProps ::
    "document_component \<Rightarrow> page_ctx \<Rightarrow> props \<Rightarrow> server_router
       \<Rightarrow> ((jsval + jsval) \<times> bool) \<times> string list"
  env_serializeError :: "bool \<Rightarrow> jsval \<Rightarrow> jsval"
  env_renderToString :: "html_props \<Rightarrow> jsval option \<Rightarrow> jsval + string \<times> string list"
  env_bodyResult :: "body_source \<Rightarrow> string option \<Rightarrow> jsval + string"
  env_postProcessHTML :: "string \<Rightarrow> string \<Rightarrow> bool \<Rightarrow> bool \<Rightarrow> jsval + string"
  env_renderResultToResponse ::
    "next_request \<Rightarrow> render_result \<Rightarrow> bool \<Rightarrow> transform_context \<Rightarrow> jsval + response"

subsection \<open>State: the log of calls and the response\<close>

text \<open>
  What a request does beyond its result is recorded as a list of events, in order:
  the warnings logged, and each call that leaves the module. \<open>res_sent\<close> is what
  \<open>isResSent(res)\<close> reads from the response.
\<close>

datatype event =
    Warned string
  | SetupRun string
  | PreviewDataRead
  | AppInitialPropsLoaded
  | GetStaticPropsCalled gsp_context
  | GetServerSidePropsCalled gssp_context
  | DocumentRenderStarted
  | DocumentRendered html_props
  | Transformed

record world =
  trace :: "event list"
  res_sent :: bool

type_synonym 'a run = "world \<Rightarrow> (error + 'a) \<times> world"

definition run_ok :: "'a \<Rightarrow> 'a run" where
  "run_ok x = (\<lambda>w. (Inr x, w))"

definition run_throw :: "error \<Rightarrow> 'a run" where
  "run_throw e = (\<lambda>w. (Inl e, w))"

definition run_bind :: "'a run \<Rightarrow> ('a \<Rightarrow> 'b run) \<Rightarrow> 'b run" where
  "run_bind m f = (\<lambda>w. case m w of (Inl e, w') \<Rightarrow> (Inl e, w') | (Inr x, w') \<Rightarrow> f x w')"

definition run_emit :: "event \<Rightarrow> unit run" where
  "run_emit ev = (\<lambda>w. (Inr (), w\<lparr>trace := trace w @ [ev]\<rparr>))"

definition run_isResSent :: "bool run" where
  "run_isResSent = (\<lambda>w. (Inr (res_sent w), w))"

text \<open>The outcome of a collaborator: a thrown value becomes \<open>Thrown\<close>, and the
  response is sent from then on when the collaborator sent it.\<close>

definition run_external :: "(jsval + 'a) \<times> bool \<Rightarrow> 'a run" where
  "run_external r = (\<lambda>w.
     (case fst r of Inl v \<Rightarrow> Inl (Thrown v) | Inr x \<Rightarrow> Inr x,
      w\<lparr>res_sent := (res_sent w \<or> snd r)\<rparr>))"

definition run_pure :: "jsval + 'a \<Rightarrow> 'a run" where
  "run_pure r = (case r of Inl v \<Rightarrow> run_throw (Thrown v) | Inr x \<Rightarrow> run_ok x)"

definition run_when :: "bool \<Rightarrow> unit run \<Rightarrow> unit run" where
  "run_when c m = (if c then m else run_ok ())"

section \<open>\<open>PagesRouteModule\<close>: constructor and \<open>setup\<close>\<close>

text \<open>\<open>typeof f === 'function'\<close> for an optional export.\<close>

definition is_function :: "'a option \<Rightarrow> bool" where
  "is_function f = (case f of None \<Rightarrow> False | Some _ \<Rightarrow> True)"

definition new_PagesRouteModule :: "env \<Rightarrow> pages_module_options \<Rightarrow> pages_module" where
  "new_PagesRouteModule env opts =
     \<lparr> pm_userland = opt_userland opts,
       pm_App = opt_App opts,
       pm_Document = opt_Document opts,
       pm_config = opt_config opts,
       pm_isDynamic = env_isDynamicRoute env (opt_page opts),
       pm_definition_page = opt_page opts,
       pm_amp = (case config_amp (opt_userland opts) of None \<Rightarrow> AmpBool False | Some a \<Rightarrow> a),
       pm_renderOpts = opt_renderOpts opts \<rparr>"

text \<open>The loop over the three method names: the first one found on the component
  is the error.\<close>

fun component_member_error :: "string \<Rightarrow> string list \<Rightarrow> string list \<Rightarrow> error option" where
  "component_member_error page members [] = None"
| "component_member_error page members (method # rest) =
     (if method \<in> set members then Some (GsspComponentMember page method)
      else component_member_error page members rest)"

text \<open>The loop over \<open>/404\<close> and \<open>/500\<close> of the development checks.\<close>

fun status_page_error :: "string \<Rightarrow> bool \<Rightarrow> string list \<Rightarrow> error option" where
  "status_page_error page uses_gssp_or_gip [] = None"
| "status_page_error page uses_gssp_or_gip (pathname # rest) =
     (if page = pathname \<and> uses_gssp_or_gip then Some (StaticStatusPageGetInitialProps pathname)
      else status_page_error page uses_gssp_or_gip rest)"

definition setup_dev_checks :: "pages_module \<Rightarrow> string \<Rightarrow> unit run" where
  "setup_dev_checks m page =
     (let u = pm_userland m; Component = default_export u in
      if \<not> comp_isValidElementType Component then run_throw (NotAReactComponent page)
      else if \<not> app_isValidElementType (pm_App m) then run_throw (NotAReactComponent ''/_app'')
      else if \<not> doc_isValidElementType (pm_Document m)
        then run_throw (NotAReactComponent ''/_document'')
      else (case status_page_error page
                   (is_function (getServerSideProps u) \<or> comp_getInitialProps Component \<noteq> None)
                   [''/404'', ''/500''] of
              Some e \<Rightarrow> run_throw e
            | None \<Rightarrow> run_ok ()))"

text \<open>
  \<open>setup(page, nextExport, dev)\<close>. The two flags are \<open>boolean | undefined\<close> in the
  source and only tested for truth, so \<open>undefined\<close> is \<open>False\<close> here.
  \<open>setup_checks\<close> is the body of the method; \<open>setup_module\<close> first records that
  the method was entered.
\<close>

definition setup_checks :: "pages_module \<Rightarrow> string \<Rightarrow> bool \<Rightarrow> bool \<Rightarrow> unit run" where
  "setup_checks m page nextExport dev =
     (let u = pm_userland m;
          Component = default_export u;
          gip = comp_getInitialProps Component;
          gssp = is_function (getServerSideProps u);
          gsp = is_function (getStaticProps u);
          paths = is_function (getStaticPaths u)
      in
      run_bind (run_when (nextExport \<and> gip \<noteq> None \<and>
                          (page \<noteq> ''/_error'' \<or> gip \<noteq> comp_origGetInitialProps Component))
                  (run_emit (Warned ''get-initial-props-export''))) (\<lambda>_.
      if nextExport \<and> gssp then run_throw (ServerPropsExportError page)
      else if gsp \<and> gip \<noteq> None then run_throw (SsgGetInitialPropsConflict page)
      else if gssp \<and> gip \<noteq> None then run_throw (ServerPropsGetInitPropsConflict page)
      else if gssp \<and> gsp then run_throw (ServerPropsSsgConflict page)
      else if gssp \<and> cfg_output (pm_config m) = Some ''export''
        then run_throw ServerPropsOutputExport
      else if paths \<and> \<not> pm_isDynamic m then run_throw (NonDynamicGetStaticPaths page)
      else if paths \<and> \<not> gsp then run_throw (GetStaticPathsWithoutGetStaticProps page)
      else if pm_isDynamic m \<and> gsp \<and> \<not> paths then run_throw (MissingGetStaticPaths page)
      else (case component_member_error page (comp_members Component)
                   [''getStaticProps'', ''getStaticPaths'', ''getServerSideProps''] of
              Some e \<Rightarrow> run_throw e
            | None \<Rightarrow> if dev then setup_dev_checks m page else run_ok ())))"

definition setup_module :: "pages_module \<Rightarrow> string \<Rightarrow> bool \<Rightarrow> bool \<Rightarrow> unit run" where
  "setup_module m page nextExport dev =
     run_bind (run_emit (SetupRun page)) (\<lambda>_. setup_checks m page nextExport dev)"

section \<open>\<open>PagesRouteModule.render\<close>\<close>

subsection \<open>The values computed before the props are loaded\<close>

record render_locals =
  rl_pathname :: string
  rl_query :: jsobj
  rl_asPath :: string
  rl_isFallback :: bool
  rl_notFoundSrcPage :: jsval
  rl_appHasDefaultGetInitialProps :: bool
  rl_isAutoExport :: bool
  rl_isPreview :: bool
  rl_previewData :: jsval
  rl_router :: server_router
  rl_ampState :: amp_state
  rl_inAmpMode :: bool
  rl_ctx :: page_ctx
  rl_nextExport :: bool

definition has_getStaticProps :: "pages_module \<Rightarrow> bool" where
  "has_getStaticProps m = is_function (getStaticProps (pm_userland m))"

definition has_getServerSideProps :: "pages_module \<Rightarrow> bool" where
  "has_getServerSideProps m = is_function (getServerSideProps (pm_userland m))"

definition has_getInitialProps :: "pages_module \<Rightarrow> bool" where
  "has_getInitialProps m = (comp_getInitialProps (default_export (pm_userland m)) \<noteq> None)"

definition ends_with_slash :: "string \<Rightarrow> bool" where
  "ends_with_slash s = (s \<noteq> [] \<and> last s = CHR ''/'')"

definition render_locals_of ::
  "env \<Rightarrow> pages_module \<Rightarrow> next_request \<Rightarrow> render_context \<Rightarrow> render_locals" where
  "render_locals_of env m request rc =
     (let ro = hc_renderOpts (rc_context rc);
          dev = ro_dev (pm_renderOpts m);
          appHasDefault = (app_getInitialProps (pm_App m) = app_origGetInitialProps (pm_App m));
          routerIsReady = (has_getServerSideProps m \<or> has_getInitialProps m \<or>
                           (\<not> appHasDefault \<and> has_getStaticProps m));
          isAutoExport = (\<not> has_getInitialProps m \<and> \<not> has_getStaticProps m \<and>
                          \<not> has_getServerSideProps m \<and> appHasDefault);
          isLocaleDomain = (case ctx_isLocaleDomain ro of None \<Rightarrow> False | Some b \<Rightarrow> b);
          pathname = req_pathname request;
          query0 = ctx_query ro;
          asPath0 = (case ctx_resolvedAsPath ro of
                       None \<Rightarrow> req_url request
                     | Some a \<Rightarrow> if a = [] then req_url request else a);
          isFallback = truthy (get_key query0 ''__nextFallback'');
          notFoundSrcPage = get_key query0 ''__nextNotFoundSrcPage'';
          rewrite = (dev \<and> (isAutoExport \<or> isFallback));
          query = (if rewrite
                   then (if truthy (get_key query0 ''amp'')
                         then [(''amp'', get_key query0 ''amp'')] else [])
                   else query0);
          asPath = (if rewrite
                    then (if \<not> pm_isDynamic m \<and> ends_with_slash (req_url request) \<and>
                             pathname \<noteq> ''/''
                          then pathname @ ''/'' else pathname)
                    else asPath0);
          isPreview = (if \<not> isFallback then rc_isPreviewMode rc else False);
          previewData = (if \<not> isFallback then rc_previewData rc else JUndefined);
          router = \<lparr> sr_pathname = pathname, sr_query = query, sr_asPath = asPath,
                     sr_basePath = cfg_basePath (pm_config m), sr_isFallback = isFallback,
                     sr_locale = ctx_locale ro, sr_isReady = routerIsReady,
                     sr_defaultLocale = ctx_defaultLocale ro, sr_locales = ctx_locales ro,
                     sr_domainLocales = cfg_i18n_domains (pm_config m),
                     sr_isPreview = isPreview, sr_isLocaleDomain = isLocaleDomain \<rparr>;
          ampState = \<lparr> ampFirst = (config_amp (pm_userland m) = Some (AmpBool True)),
                       hasQuery = truthy (get_key query ''amp''),
                       hybrid = (config_amp (pm_userland m) = Some AmpHybrid) \<rparr>;
          inAmpMode = (\<not> env_edge_runtime env \<and> env_isInAmpMode env ampState);
          ctx = \<lparr> pc_err = ctx_err ro,
                  pc_req = (if isAutoExport then None else rc_req rc),
                  pc_has_res = (\<not> isAutoExport),
                  pc_pathname = pathname, pc_query = query, pc_asPath = asPath,
                  pc_locale = ctx_locale ro, pc_locales = ctx_locales ro,
                  pc_defaultLocale = ctx_defaultLocale ro \<rparr>;
          nextExport = (\<not> has_getStaticProps m \<and>
                        (hc_export (rc_context rc) \<or> (dev \<and> (isAutoExport \<or> isFallback))))
      in \<lparr> rl_pathname = pathname, rl_query = query, rl_asPath = asPath,
           rl_isFallback = isFallback, rl_notFoundSrcPage = notFoundSrcPage,
           rl_appHasDefaultGetInitialProps = appHasDefault, rl_isAutoExport = isAutoExport,
           rl_isPreview = isPreview, rl_previewData = previewData, rl_router = router,
           rl_ampState = ampState, rl_inAmpMode = inAmpMode, rl_ctx = ctx,
           rl_nextExport = nextExport \<rparr>)"

subsection \<open>Helpers of the data-fetching blocks\<close>

text \<open>
  The \<open>catch\<close> block around a user function: when the thrown value is an error
  whose \<open>code\<close> is \<open>'ENOENT'\<close>, the property is deleted; the value is rethrown.
  \<open>isError\<close> is a helper outside the given sources and a parameter here.
\<close>

definition strip_not_found_code :: "env \<Rightarrow> jsval \<Rightarrow> jsval" where
  "strip_not_found_code env err =
     (case err of
        JObj kvs \<Rightarrow>
          if env_isError env err \<and> get_key kvs ''code'' = JStr ''ENOENT''
          then JObj (delete_key ''code'' kvs) else err
      | _ \<Rightarrow> err)"

text \<open>
  Modelled from the spec: \<open>validateRevalidate\<close> (\<open>helpers/validate-revalidate\<close>) is
  not among the given sources. The spec: a \<open>revalidate\<close> value is validated to be
  either \<open>false\<close>, a positive integer, or absent; invalid values fail the request.
  A valid number is returned as it is, \<open>false\<close> and an absent value give \<open>false\<close>
  (no revalidation).
\<close>

definition validateRevalidate :: "jsval \<Rightarrow> string \<Rightarrow> error + jsval" where
  "validateRevalidate revalidate url =
     (case revalidate of
        JBool False \<Rightarrow> Inr (JBool False)
      | JUndefined \<Rightarrow> Inr (JBool False)
      | JNum n \<Rightarrow> if is_integer n \<and> 0 < n then Inr (JNum n)
                 else Inl (InvalidRevalidate revalidate url)
      | _ \<Rightarrow> Inl (InvalidRevalidate revalidate url))"

definition run_result :: "error + 'a \<Rightarrow> 'a run" where
  "run_result r = (case r of Inl e \<Rightarrow> run_throw e | Inr x \<Rightarrow> run_ok x)"

definition run_validate :: "jsval option \<Rightarrow> unit run" where
  "run_validate r = (case r of Some v \<Rightarrow> run_throw (Thrown v) | None \<Rightarrow> run_ok ())"

text \<open>
  \<open>metadata.pageData = props\<close> stores a reference: a later assignment to a property
  of \<open>props\<close> shows in the metadata too. The model assigns to both.
\<close>

definition sync_pageData :: "render_result_metadata \<Rightarrow> props \<Rightarrow> render_result_metadata" where
  "sync_pageData md p = (case md_pageData md of None \<Rightarrow> md | Some _ \<Rightarrow> md\<lparr>md_pageData := Some p\<rparr>)"

definition pageProps_or_undefined :: "props \<Rightarrow> jsval" where
  "pageProps_or_undefined p = (case props_pageProps p of None \<Rightarrow> JUndefined | Some v \<Rightarrow> v)"

definition flag_set :: "bool option \<Rightarrow> bool" where
  "flag_set b = (b = Some True)"

text \<open>A block of \<open>render\<close> either returns from \<open>render\<close> or goes on with the
  props and the metadata.\<close>

datatype fetch_step = Return render_result | Continue props render_result_metadata


subsection \<open>The \<open>getStaticProps\<close> block\<close>

definition getStaticProps_context :: "pages_module \<Rightarrow> render_context \<Rightarrow> render_locals \<Rightarrow> gsp_context" where
  "getStaticProps_context m rc rl =
     (let ro = hc_renderOpts (rc_context rc) in
      \<lparr> gsp_params = (if pm_isDynamic m then Some (rl_query rl) else None),
        gsp_preview = (if rl_isPreview rl then Some True else None),
        gsp_previewData = (if rl_isPreview rl then Some (rl_previewData rl) else None),
        gsp_locales = ctx_locales ro,
        gsp_locale = ctx_locale ro,
        gsp_defaultLocale = ctx_defaultLocale ro \<rparr>)"

text \<open>The call of the user's function inside \<open>try\<close>/\<open>catch\<close>.\<close>

definition call_getStaticProps :: "env \<Rightarrow> getStaticProps_fn \<Rightarrow> gsp_context \<Rightarrow> jsobj run" where
  "call_getStaticProps env f gctx =
     run_bind (run_emit (GetStaticPropsCalled gctx)) (\<lambda>_.
       case f gctx of
         Inl err \<Rightarrow> run_throw (Thrown (strip_not_found_code env err))
       | Inr data \<Rightarrow> run_ok data)"

text \<open>
  What \<open>render\<close> does with the data that \<open>getStaticProps\<close> resolved to, one
  definition for each statement of the block: the handling of \<open>notFound\<close>, of
  \<open>redirect\<close> and of \<open>revalidate\<close>, the check that the props can be serialized,
  and the merge of the props with the return for a page that was not found.
\<close>

definition notFound_step ::
  "string \<Rightarrow> jsobj \<Rightarrow> render_result_metadata \<Rightarrow> render_result_metadata run" where
  "notFound_step pathname data md =
     (if has_key ''notFound'' data \<and> truthy (get_key data ''notFound'')
      then (if pathname = ''/404'' then run_throw NotFoundOn404
            else run_ok (md\<lparr>md_isNotFound := Some True\<rparr>))
      else run_ok md)"

definition static_redirect_step ::
  "env \<Rightarrow> string \<Rightarrow> bool \<Rightarrow> jsobj \<Rightarrow> render_result_metadata \<Rightarrow>
   (jsobj \<times> render_result_metadata) run" where
  "static_redirect_step env url export data md =
     (if has_key ''redirect'' data \<and> truthy (get_key data ''redirect'') \<and>
         typeof_object (get_key data ''redirect'')
      then run_bind (run_pure (env_checkRedirectValues env data url ''getStaticProps''))
             (\<lambda>data1.
                if export then run_throw (RedirectDuringPrerender url)
                else run_ok (data1, md\<lparr>md_isRedirect := Some True\<rparr>))
      else run_ok (data, md))"

definition revalidate_step ::
  "pages_module \<Rightarrow> string \<Rightarrow> jsobj \<Rightarrow> render_result_metadata \<Rightarrow> render_result_metadata run" where
  "revalidate_step m url data md =
     (if has_key ''revalidate'' data
      then run_bind (run_result (validateRevalidate (get_key data ''revalidate'') url))
             (\<lambda>rv.
                if truthy rv \<and> cfg_output (pm_config m) = Some ''export''
                then run_throw IsrOutputExport
                else run_ok (md\<lparr>md_revalidate := Some rv\<rparr>))
      else run_ok md)"

definition serializable_step ::
  "env \<Rightarrow> bool \<Rightarrow> string \<Rightarrow> string \<Rightarrow> error \<Rightarrow> jsobj \<Rightarrow> unit run" where
  "serializable_step env dev_or_export pathname method invariant data =
     (if dev_or_export \<and> has_key ''props'' data
      then run_bind (run_pure (env_isSerializableProps env pathname method (get_key data ''props'')))
             (\<lambda>serializable. if \<not> serializable then run_throw invariant else run_ok ())
      else run_ok ())"

definition merge_static_props :: "props \<Rightarrow> jsobj \<Rightarrow> props" where
  "merge_static_props p data =
     (if has_key ''props'' data \<and> truthy (get_key data ''props'')
      then p\<lparr>props_pageProps :=
              Some (Object_assign (pageProps_or_undefined p) (get_key data ''props''))\<rparr>
      else p)"

definition static_props_result ::
  "env \<Rightarrow> pages_module \<Rightarrow> next_request \<Rightarrow> render_context \<Rightarrow> render_locals \<Rightarrow>
   props \<Rightarrow> render_result_metadata \<Rightarrow> jsobj \<Rightarrow> fetch_step run" where
  "static_props_result env m request rc rl p md data0 =
     run_bind (run_validate (env_validateGetStaticProps env data0)) (\<lambda>_.
     run_bind (run_when (\<not> env_production env \<and> has_key ''notFound'' data0 \<and>
                         has_key ''redirect'' data0)
                 (run_throw (MixedNotFoundRedirect (rl_pathname rl)))) (\<lambda>_.
     run_bind (notFound_step (rl_pathname rl) data0 md) (\<lambda>md1.
     run_bind (static_redirect_step env (req_url request) (hc_export (rc_context rc)) data0 md1)
       (\<lambda>(data, md2).
     run_bind (revalidate_step m (req_url request) data md2) (\<lambda>md3.
     run_bind (serializable_step env (ro_dev (pm_renderOpts m) \<or> hc_export (rc_context rc))
                 (rl_pathname rl) ''getStaticProps'' InvalidStaticProps data) (\<lambda>_.
       let p1 = merge_static_props p data;
           md4 = md3\<lparr>md_pageData := Some p1\<rparr>
       in if flag_set (md_isNotFound md4)
          then run_ok (Return \<lparr>rr_response = None, rr_metadata = md4\<rparr>)
          else run_ok (Continue p1 md4)))))))"

definition static_props_block ::
  "env \<Rightarrow> pages_module \<Rightarrow> next_request \<Rightarrow> render_context \<Rightarrow> render_locals \<Rightarrow>
   props \<Rightarrow> render_result_metadata \<Rightarrow> fetch_step run" where
  "static_props_block env m request rc rl p md =
     (case getStaticProps (pm_userland m) of
        None \<Rightarrow> run_ok (Continue p md)
      | Some f \<Rightarrow>
          let p0 = p\<lparr>props_STATIC_PROPS_ID := Some True\<rparr> in
          if \<not> rl_isFallback rl
          then run_bind (call_getStaticProps env f (getStaticProps_context m rc rl))
                 (static_props_result env m request rc rl p0 md)
          else run_ok (Continue p0 md))"

subsection \<open>The \<open>getServerSideProps\<close> block\<close>

definition getServerSideProps_context ::
  "pages_module \<Rightarrow> next_request \<Rightarrow> render_context \<Rightarrow> render_locals \<Rightarrow> gssp_context" where
  "getServerSideProps_context m request rc rl =
     (let ro = hc_renderOpts (rc_context rc);
          previewData = rl_previewData rl in
      \<lparr> gssp_req = (case rc_req rc of Some r \<Rightarrow> NodeRequest r | None \<Rightarrow> WebRequest request),
        gssp_query = rl_query rl,
        gssp_resolvedUrl = ctx_resolvedUrl ro,
        gssp_params = (if pm_isDynamic m then Some (hc_params (rc_context rc)) else None),
        gssp_preview = (if previewData \<noteq> JBool False then Some True else None),
        gssp_previewData = (if previewData \<noteq> JBool False then Some previewData else None),
        gssp_locales = ctx_locales ro,
        gssp_locale = ctx_locale ro,
        gssp_defaultLocale = ctx_defaultLocale ro \<rparr>)"

definition call_getServerSideProps ::
  "env \<Rightarrow> getServerSideProps_fn \<Rightarrow> gssp_context \<Rightarrow> jsobj run" where
  "call_getServerSideProps env f sctx =
     run_bind (run_emit (GetServerSidePropsCalled sctx)) (\<lambda>_.
       case f sctx of
         (Inl err, sent) \<Rightarrow> run_external (Inl (strip_not_found_code env err), sent)
       | (Inr data, sent) \<Rightarrow> run_external (Inr data, sent))"

text \<open>\<open>data.props = await data.props\<close> when the props are a promise.\<close>

definition await_props :: "jsobj \<Rightarrow> jsobj run" where
  "await_props data =
     (if has_key ''props'' data
      then (case get_key data ''props'' of
              JPromise fulfilled v \<Rightarrow>
                if fulfilled then run_ok (AList.update ''props'' v data)
                else run_throw (Thrown v)
            | _ \<Rightarrow> run_ok data)
      else run_ok data)"

definition server_redirect_step ::
  "env \<Rightarrow> string \<Rightarrow> jsobj \<Rightarrow> render_result_metadata \<Rightarrow>
   (jsobj \<times> render_result_metadata) run" where
  "server_redirect_step env url data md =
     (if has_key ''redirect'' data \<and> truthy (get_key data ''redirect'') \<and>
         typeof_object (get_key data ''redirect'')
      then run_bind (run_pure (env_checkRedirectValues env data url ''getServerSideProps''))
             (\<lambda>data1. run_ok (data1, md\<lparr>md_isRedirect := Some True\<rparr>))
      else run_ok (data, md))"

definition merge_server_props :: "props \<Rightarrow> jsobj \<Rightarrow> props" where
  "merge_server_props p data =
     (if has_key ''props'' data \<and> get_key data ''props'' \<noteq> JUndefined
      then p\<lparr>props_pageProps :=
              Some (Object_assign (pageProps_or_undefined p) (get_key data ''props''))\<rparr>
      else p)"

text \<open>The \<open>getServerSideProps\<close> block returns a page that was not found at once,
  with the same message for \<open>/404\<close> as the static block.\<close>

definition server_side_props_result ::
  "env \<Rightarrow> pages_module \<Rightarrow> next_request \<Rightarrow> render_context \<Rightarrow> render_locals \<Rightarrow>
   props \<Rightarrow> render_result_metadata \<Rightarrow> jsobj \<Rightarrow> fetch_step run" where
  "server_side_props_result env m request rc rl p md data0 =
     run_bind (run_validate (env_validateGetServerSideProps env data0)) (\<lambda>_.
     if has_key ''notFound'' data0 \<and> truthy (get_key data0 ''notFound'')
     then (if rl_pathname rl = ''/404'' then run_throw NotFoundOn404
           else run_ok (Return \<lparr>rr_response = None,
                                rr_metadata = md\<lparr>md_isNotFound := Some True\<rparr>\<rparr>))
     else
     run_bind (server_redirect_step env (req_url request) data0 md) (\<lambda>(data1, md2).
     run_bind (await_props data1) (\<lambda>data.
     run_bind (serializable_step env (ro_dev (pm_renderOpts m) \<or> hc_export (rc_context rc))
                 (rl_pathname rl) ''getServerSideProps'' InvalidServerSideProps data) (\<lambda>_.
       let p1 = merge_server_props p data
       in run_ok (Continue p1 (md2\<lparr>md_pageData := Some p1\<rparr>))))))"

definition server_side_props_block ::
  "env \<Rightarrow> pages_module \<Rightarrow> next_request \<Rightarrow> render_context \<Rightarrow> render_locals \<Rightarrow>
   props \<Rightarrow> render_result_metadata \<Rightarrow> fetch_step run" where
  "server_side_props_block env m request rc rl p md =
     (case getServerSideProps (pm_userland m) of
        None \<Rightarrow> run_ok (Continue p md)
      | Some f \<Rightarrow>
          let p0 = p\<lparr>props_SERVER_PROPS_ID := Some True\<rparr>;
              md0 = sync_pageData md p0 in
          if \<not> rl_isFallback rl
          then run_bind (call_getServerSideProps env f (getServerSideProps_context m request rc rl))
                 (server_side_props_result env m request rc rl p0 md0)
          else run_ok (Continue p0 md0))"


subsection \<open>Document assembly\<close>

text \<open>
  \<open>renderDocument\<close>: the Edge runtime check, then either the Document's
  \<open>getInitialProps\<close> (which renders the page through \<open>renderPage\<close>) or the shell
  rendered directly. The result is \<open>None\<close> where the source returns \<open>null\<close>.
\<close>

definition docProps_html :: "jsval \<Rightarrow> string option" where
  "docProps_html docProps =
     (case docProps of
        JObj kvs \<Rightarrow> (case get_key kvs ''html'' of JStr h \<Rightarrow> Some h | _ \<Rightarrow> None)
      | _ \<Rightarrow> None)"

definition renderDocument ::
  "env \<Rightarrow> pages_module \<Rightarrow> render_locals \<Rightarrow> props \<Rightarrow> document_result option run" where
  "renderDocument env m rl p =
     (let Document = pm_Document m in
      if env_edge_runtime env \<and> doc_getInitialProps Document \<noteq> None \<and>
         \<not> doc_builtin_functional Document
      then run_throw EdgeDocumentGetInitialProps
      else if \<not> env_edge_runtime env \<and> doc_getInitialProps Document \<noteq> None
      then (let r = env_loadDocumentInitialProps env Document (rl_ctx rl) p (rl_router rl) in
            run_bind (run_external (fst (fst r), snd (fst r) \<and> pc_has_res (rl_ctx rl)))
              (\<lambda>docProps.
            run_bind run_isResSent (\<lambda>sent.
              if sent \<and> has_getStaticProps m then run_ok None
              else (case docProps_html docProps of
                      None \<Rightarrow> run_throw InvalidDocumentInitialProps
                    | Some h \<Rightarrow> run_ok (Some \<lparr> dr_body = FromDocProps h,
                                                dr_docProps = Some docProps,
                                                dr_loadable = snd r \<rparr>)))))
      else (let r = env_renderShell env p (rl_router rl) in
            run_bind (run_pure (fst r)) (\<lambda>stream.
              run_ok (Some \<lparr> dr_body = FromShell stream, dr_docProps = None,
                              dr_loadable = snd r \<rparr>))))"

text \<open>The two sets filled from the react-loadable manifest, in insertion order.\<close>

definition add_unique :: "'a \<Rightarrow> 'a list \<Rightarrow> 'a list" where
  "add_unique x xs = (if x \<in> set xs then xs else xs @ [x])"

definition dynamicImportsIds :: "handler_context \<Rightarrow> string list \<Rightarrow> jsval list" where
  "dynamicImportsIds hc mods =
     foldl (\<lambda>acc md. case hc_reactLoadable hc md of
                        None \<Rightarrow> acc
                      | Some item \<Rightarrow> add_unique (fst item) acc) [] mods"

definition dynamicImports :: "handler_context \<Rightarrow> string list \<Rightarrow> string list" where
  "dynamicImports hc mods =
     foldl (\<lambda>acc md. case hc_reactLoadable hc md of
                        None \<Rightarrow> acc
                      | Some item \<Rightarrow> foldl (\<lambda>a f. add_unique f a) acc (snd item)) [] mods"

definition next_data_of ::
  "env \<Rightarrow> pages_module \<Rightarrow> render_context \<Rightarrow> render_locals \<Rightarrow> props \<Rightarrow> document_result \<Rightarrow> next_data" where
  "next_data_of env m rc rl p dr =
     (let ro = hc_renderOpts (rc_context rc);
          dev = ro_dev (pm_renderOpts m);
          ids = dynamicImportsIds (rc_context rc) (dr_loadable dr) in
      \<lparr> nd_props = p,
        nd_page = ctx_page ro,
        nd_query = rl_query rl,
        nd_buildId = ro_buildId (pm_renderOpts m),
        nd_assetPrefix = (if cfg_assetPrefix (pm_config m) = [] then None
                          else Some (cfg_assetPrefix (pm_config m))),
        nd_runtimeConfig = ctx_runtimeConfig ro,
        nd_nextExport = (if rl_nextExport rl then Some True else None),
        nd_autoExport = (if rl_isAutoExport rl then Some True else None),
        nd_isFallback = rl_isFallback rl,
        nd_dynamicIds = (if ids = [] then None else Some ids),
        nd_err = (case ctx_err ro of None \<Rightarrow> None
                  | Some e \<Rightarrow> if truthy e then Some (env_serializeError env dev e) else None),
        nd_gsp = (if has_getStaticProps m then Some True else None),
        nd_gssp = (if has_getServerSideProps m then Some True else None),
        nd_customServer = ctx_customServer ro,
        nd_gip = (if has_getInitialProps m then Some True else None),
        nd_appGip = (if \<not> rl_appHasDefaultGetInitialProps rl then Some True else None),
        nd_locale = ctx_locale ro,
        nd_locales = ctx_locales ro,
        nd_defaultLocale = ctx_defaultLocale ro,
        nd_domainLocales = cfg_i18n_domains (pm_config m),
        nd_isPreview = (if rl_isPreview rl then Some True else None),
        nd_notFoundSrcPage = (if truthy (rl_notFoundSrcPage rl) \<and> dev
                              then Some (rl_notFoundSrcPage rl) else None) \<rparr>)"

definition canonicalBase :: "pages_module \<Rightarrow> render_context \<Rightarrow> string" where
  "canonicalBase m rc =
     (let ro = hc_renderOpts (rc_context rc);
          base = (case cfg_amp_canonicalBase (pm_config m) of None \<Rightarrow> [] | Some b \<Rightarrow> b);
          no_ampPath = (case ctx_ampPath ro of None \<Rightarrow> True | Some a \<Rightarrow> a = [])
      in case rc_req rc of
           None \<Rightarrow> base
         | Some req \<Rightarrow>
             if no_ampPath \<and> im_nextStrippedLocale req
             then base @ ''/'' @ (case ctx_locale ro of None \<Rightarrow> ''undefined'' | Some l \<Rightarrow> l)
             else base)"

definition html_props_of ::
  "env \<Rightarrow> pages_module \<Rightarrow> render_context \<Rightarrow> render_locals \<Rightarrow> props \<Rightarrow>
   render_result_metadata \<Rightarrow> document_result \<Rightarrow> html_props" where
  "html_props_of env m rc rl p md dr =
     (let ro = hc_renderOpts (rc_context rc) in
      \<lparr> hp_NEXT_DATA = next_data_of env m rc rl p dr,
        hp_dangerousAsPath = sr_asPath (rl_router rl),
        hp_canonicalBase = canonicalBase m rc,
        hp_ampPath = (case ctx_ampPath ro of None \<Rightarrow> [] | Some a \<Rightarrow> a),
        hp_inAmpMode = rl_inAmpMode rl,
        hp_isDevelopment = ro_dev (pm_renderOpts m),
        hp_hybridAmp = hybrid (rl_ampState rl),
        hp_dynamicImports = dynamicImports (rc_context rc) (dr_loadable dr),
        hp_devOnlyCacheBusterQueryString = md_devOnlyCacheBusterQueryString md,
        hp_locale = ctx_locale ro \<rparr>)"

text \<open>\<open>String.prototype.split\<close> with a non-empty separator, and \<open>startsWith\<close>.\<close>

definition starts_with :: "string \<Rightarrow> string \<Rightarrow> bool" where
  "starts_with s pre = (take (length pre) s = pre)"

fun split_scan :: "string \<Rightarrow> nat \<Rightarrow> string \<Rightarrow> string \<Rightarrow> string list" where
  "split_scan sep skip acc [] = [rev acc]"
| "split_scan sep skip acc (c # cs) =
     (if 0 < skip then split_scan sep (skip - 1) acc cs
      else if sep \<noteq> [] \<and> starts_with (c # cs) sep
        then rev acc # split_scan sep (length sep - 1) [] cs
      else split_scan sep 0 (c # acc) cs)"

definition split_on :: "string \<Rightarrow> string \<Rightarrow> string list" where
  "split_on sep s = split_scan sep 0 [] s"

definition DOCTYPE :: string where
  "DOCTYPE = ''<!DOCTYPE html>''"

definition body_render_target :: string where
  "body_render_target =
     ''<next-js-internal-body-render-target></next-js-internal-body-render-target>''"

definition expectedDocComponents :: "string list" where
  "expectedDocComponents = [''Main'', ''Head'', ''NextScript'', ''Html'']"

definition assemble_document ::
  "env \<Rightarrow> pages_module \<Rightarrow> render_context \<Rightarrow> render_locals \<Rightarrow> props \<Rightarrow>
   render_result_metadata \<Rightarrow> render_result run" where
  "assemble_document env m rc rl p md =
     run_bind (run_emit DocumentRenderStarted) (\<lambda>_.
     run_bind (renderDocument env m rl p) (\<lambda>documentResult.
       case documentResult of
         None \<Rightarrow> run_ok \<lparr>rr_response = None, rr_metadata = md\<rparr>
       | Some dr \<Rightarrow>
           let htmlProps = html_props_of env m rc rl p md dr in
           run_bind (run_emit (DocumentRendered htmlProps)) (\<lambda>_.
           run_bind (run_pure (env_renderToString env htmlProps (dr_docProps dr)))
             (\<lambda>(documentHTML, rendered).
           run_bind (run_when (\<not> env_production env \<and>
                               \<not> set expectedDocComponents \<subseteq> set rendered)
                       (run_emit (Warned ''missing-document-component''))) (\<lambda>_.
           let parts = split_on body_render_target documentHTML;
               renderTargetPrefix = (case parts of [] \<Rightarrow> [] | a # _ \<Rightarrow> a);
               renderTargetSuffix = (case parts of a # b # _ \<Rightarrow> Some b | _ \<Rightarrow> None);
               prefix = (if \<not> starts_with documentHTML DOCTYPE then [DOCTYPE] else [])
                        @ [renderTargetPrefix]
                        @ (if rl_inAmpMode rl then [''<!-- __NEXT_DATA__ -->''] else [])
           in
           run_bind (run_pure (env_bodyResult env (dr_body dr) renderTargetSuffix)) (\<lambda>body.
           run_bind (run_pure (env_postProcessHTML env (rl_pathname rl) (concat prefix @ body)
                                 (rl_inAmpMode rl) (hybrid (rl_ampState rl)))) (\<lambda>processed.
             run_ok \<lparr>rr_response = Some processed, rr_metadata = md\<rparr>)))))))"


subsection \<open>\<open>render\<close>\<close>

definition initial_metadata :: "env \<Rightarrow> pages_module \<Rightarrow> render_result_metadata" where
  "initial_metadata env m =
     \<lparr> md_devOnlyCacheBusterQueryString =
         Some (if ro_dev (pm_renderOpts m) then ''?ts='' @ env_now env else []),
       md_isNotFound = None, md_isRedirect = None, md_revalidate = None,
       md_pageData = None \<rparr>"

text \<open>\<open>loadGetInitialProps(App, ...)\<close>; an auto-exported page gets no response
  object, so its App cannot send the response.\<close>

definition load_app_props :: "env \<Rightarrow> pages_module \<Rightarrow> render_locals \<Rightarrow> props run" where
  "load_app_props env m rl =
     run_bind (run_emit AppInitialPropsLoaded) (\<lambda>_.
       let r = env_loadAppInitialProps env (pm_App m) (default_export (pm_userland m))
                 (rl_router rl) (rl_ctx rl)
       in run_external (fst r, snd r \<and> pc_has_res (rl_ctx rl)))"

text \<open>The warning about the reserved prop \<open>url\<close>. \<open>Object.keys\<close> throws a
  \<open>TypeError\<close> on \<open>null\<close>, which passes the \<open>typeof\<close> test.\<close>

definition reserved_url_warning :: "env \<Rightarrow> pages_module \<Rightarrow> props \<Rightarrow> unit run" where
  "reserved_url_warning env m p =
     (if \<not> has_getStaticProps m \<and> \<not> has_getServerSideProps m \<and> \<not> env_production env
      then (case props_pageProps p of
              None \<Rightarrow> run_ok ()
            | Some v \<Rightarrow>
                if typeof_object v
                then (if v = JNull then run_throw TypeErrorNullToObject
                      else run_when (''url'' \<in> set (map fst (own_enumerable v)))
                             (run_emit (Warned ''reserved-page-prop'')))
                else run_ok ())
      else run_ok ())"

text \<open>The first half of \<open>render\<close>: the App's initial props, the preview mark and
  the two data-fetching blocks.\<close>

definition fetch_page_props ::
  "env \<Rightarrow> pages_module \<Rightarrow> next_request \<Rightarrow> render_context \<Rightarrow> render_locals \<Rightarrow> fetch_step run" where
  "fetch_page_props env m request rc rl =
     run_bind (load_app_props env m rl) (\<lambda>props0.
     let p1 = (if (has_getStaticProps m \<or> has_getServerSideProps m) \<and> rl_isPreview rl
               then props0\<lparr>props_N_PREVIEW := Some True\<rparr> else props0) in
     run_bind (static_props_block env m request rc rl p1 (initial_metadata env m)) (\<lambda>step1.
       case step1 of
         Return r \<Rightarrow> run_ok (Return r)
       | Continue p2 md2 \<Rightarrow> server_side_props_block env m request rc rl p2 md2))"

text \<open>The second half: the early returns for data requests, redirects and a
  response that was already sent, then the document.\<close>

definition finish_render ::
  "env \<Rightarrow> pages_module \<Rightarrow> render_context \<Rightarrow> render_locals \<Rightarrow> props \<Rightarrow>
   render_result_metadata \<Rightarrow> render_result run" where
  "finish_render env m rc rl p md =
     run_bind (reserved_url_warning env m p) (\<lambda>_.
       if (flag_set (ctx_isDataReq (hc_renderOpts (rc_context rc))) \<and> has_getServerSideProps m)
          \<or> flag_set (md_isRedirect md)
       then run_ok \<lparr>rr_response = Some (env_JSON_stringify env p), rr_metadata = md\<rparr>
       else run_bind run_isResSent (\<lambda>sent.
         if sent \<and> \<not> has_getStaticProps m
         then run_ok \<lparr>rr_response = None, rr_metadata = md\<rparr>
         else assemble_document env m rc rl p md))"

definition render :: "env \<Rightarrow> pages_module \<Rightarrow> next_request \<Rightarrow> render_context \<Rightarrow> render_result run" where
  "render env m request rc =
     (let rl = render_locals_of env m request rc in
      run_bind (fetch_page_props env m request rc rl) (\<lambda>step.
        case step of
          Return r \<Rightarrow> run_ok r
        | Continue p md \<Rightarrow> finish_render env m rc rl p md))"

section \<open>\<open>PagesRouteModule.handle\<close>\<close>

text \<open>
  \<open>handle\<close> runs \<open>setup\<close>, creates the mocked response, resolves the preview state,
  renders and transforms. \<open>previewData\<close> is declared without a value, so it is
  \<open>undefined\<close> unless \<open>tryGetPreviewData\<close> is called. The resolver is a helper
  outside the given sources; it answers \<open>false\<close> or the decoded preview data.
\<close>

definition resolve_preview ::
  "env \<Rightarrow> pages_module \<Rightarrow> incoming_message option \<Rightarrow> handler_context \<Rightarrow> (jsval \<times> bool) run" where
  "resolve_preview env m req hc =
     (case (req, env_tryGetPreviewData env, hc_prerender_preview hc) of
        (Some r, Some decode, Some preview) \<Rightarrow>
          if has_getServerSideProps m \<or> has_getStaticProps m
          then run_bind (run_emit PreviewDataRead) (\<lambda>_.
                 let previewData = decode r preview in
                 run_ok (previewData, previewData \<noteq> JBool False))
          else run_ok (JUndefined, False)
      | _ \<Rightarrow> run_ok (JUndefined, False))"

definition transform ::
  "env \<Rightarrow> pages_module \<Rightarrow> next_request \<Rightarrow> render_result \<Rightarrow> transform_context \<Rightarrow> response run" where
  "transform env m request result tc =
     run_bind (run_emit Transformed) (\<lambda>_.
       run_pure (env_renderResultToResponse env request result (has_getStaticProps m) tc))"

definition handle :: "env \<Rightarrow> pages_module \<Rightarrow> next_request \<Rightarrow> handler_context \<Rightarrow> response run" where
  "handle env m request hc =
     run_bind (setup_module m (ctx_page (hc_renderOpts hc)) (hc_export hc)
                 (ro_dev (pm_renderOpts m))) (\<lambda>_.
     run_bind (\<lambda>w. (Inr (), w\<lparr>res_sent := False\<rparr>)) (\<lambda>_.
     let req = req_originalRequest request in
     run_bind (resolve_preview env m req hc) (\<lambda>(previewData, isPreviewMode).
     run_bind (render env m request
                 \<lparr> rc_context = hc, rc_req = req, rc_isPreviewMode = isPreviewMode,
                   rc_previewData = previewData \<rparr>) (\<lambda>result.
     run_bind run_isResSent (\<lambda>sent.
       transform env m request result
         \<lparr> tc_isResSent = sent,
           tc_isDataReq = flag_set (ctx_isDataReq (hc_renderOpts hc)),
           tc_isPreviewMode = isPreviewMode \<rparr>)))))"

text \<open>Requests handled one after the other by the same module: the log carries
  over, each request has its own outcome and its own response object.\<close>

fun handle_all ::
  "env \<Rightarrow> pages_module \<Rightarrow> (next_request \<times> handler_context) list \<Rightarrow> world \<Rightarrow>
   (error + response) list \<times> world" where
  "handle_all env m [] w = ([], w)"
| "handle_all env m (rq # rest) w =
     (let r = handle env m (fst rq) (snd rq) w;
          rs = handle_all env m rest (snd r)
      in (fst r # fst rs, snd rs))"

definition initial_world :: world where
  "initial_world = \<lparr> trace = [], res_sent = False \<rparr>"


section \<open>Reading the log\<close>

text \<open>The events that a run adds to the log.\<close>

definition events_of :: "'a run \<Rightarrow> world \<Rightarrow> event list" where
  "events_of m w = drop (length (trace w)) (trace (snd (m w)))"

text \<open>A run only emits events accepted by \<open>P\<close>, whatever the state it starts from.\<close>

definition only_emits :: "(event \<Rightarrow> bool) \<Rightarrow> 'a run \<Rightarrow> bool" where
  "only_emits P m = (\<forall>w. \<exists>evs. trace (snd (m w)) = trace w @ evs \<and> list_all P evs)"

text \<open>Every value that a run returns satisfies \<open>Q\<close>.\<close>

definition returns :: "('a \<Rightarrow> bool) \<Rightarrow> 'a run \<Rightarrow> bool" where
  "returns Q m = (\<forall>w x. fst (m w) = Inr x \<longrightarrow> Q x)"


fun is_SetupRun :: "event \<Rightarrow> bool" where
  "is_SetupRun (SetupRun page) = True"
| "is_SetupRun ev = False"

fun is_GetStaticPropsCalled :: "event \<Rightarrow> bool" where
  "is_GetStaticPropsCalled (GetStaticPropsCalled c) = True"
| "is_GetStaticPropsCalled ev = False"

text \<open>The document is assembled between these two events.\<close>

fun is_document_event :: "event \<Rightarrow> bool" where
  "is_document_event DocumentRenderStarted = True"
| "is_document_event (DocumentRendered hp) = True"
| "is_document_event ev = False"

text \<open>The hydration payloads handed to the Document, and the contexts that
  \<open>getServerSideProps\<close> was called with.\<close>

fun rendered_payloads :: "event list \<Rightarrow> next_data list" where
  "rendered_payloads [] = []"
| "rendered_payloads (DocumentRendered hp # evs) = hp_NEXT_DATA hp # rendered_payloads evs"
| "rendered_payloads (ev # evs) = rendered_payloads evs"

fun getServerSideProps_calls :: "event list \<Rightarrow> gssp_context list" where
  "getServerSideProps_calls [] = []"
| "getServerSideProps_calls (GetServerSidePropsCalled c # evs) = c # getServerSideProps_calls evs"
| "getServerSideProps_calls (ev # evs) = getServerSideProps_calls evs"

definition setup_runs :: "event list \<Rightarrow> nat" where
  "setup_runs evs = length (filter is_SetupRun evs)"

definition step_metadata :: "fetch_step \<Rightarrow> render_result_metadata" where
  "step_metadata step = (case step of Return r \<Rightarrow> rr_metadata r | Continue p md \<Rightarrow> md)"


text \<open>The result of an early return for a missing page: no response body, and
  the metadata marked not found.\<close>

definition not_found_result :: "render_result \<Rightarrow> bool" where
  "not_found_result r = (rr_response r = None \<and> md_isNotFound (rr_metadata r) = Some True)"

text \<open>
  What the caller is to receive when a user's data-fetching function throws \<open>err\<close>,
  in the words of the specification: the same error, except that a \<open>code\<close> equal to
  \<open>'ENOENT'\<close> is deleted first.
\<close>

definition rethrown_error :: "jsval \<Rightarrow> jsval" where
  "rethrown_error err =
     (case err of
        JObj kvs \<Rightarrow> if get_key kvs ''code'' = JStr ''ENOENT''
                    then JObj (delete_key ''code'' kvs) else err
      | _ \<Rightarrow> err)"

section \<open>Example inputs\<close>

text \<open>
  A concrete environment, module and request for the examples below. The
  collaborators are simple stand-ins: the validators accept, the renderers return
  fixed markup, the App's initial props and the production flag are arguments.
\<close>

definition app_props :: "jsval option \<Rightarrow> props" where
  "app_props pp = \<lparr> props_N_PREVIEW = None, props_STATIC_PROPS_ID = None,
     props_SERVER_PROPS_ID = None, props_pageProps = pp, props_rest = [] \<rparr>"

definition example_env :: "bool \<Rightarrow> props \<Rightarrow> env" where
  "example_env production props0 =
     \<lparr> env_production = production,
       env_edge_runtime = False,
       env_now = ''0'',
       env_isDynamicRoute = (\<lambda>page. CHR ''['' \<in> set page),
       env_tryGetPreviewData = Some (\<lambda>req preview. JBool False),
       env_loadAppInitialProps = (\<lambda>app comp router ctx. (Inr props0, False)),
       env_isError = (\<lambda>v. case v of
                              JObj kvs \<Rightarrow> has_key ''name'' kvs \<and> has_key ''message'' kvs
                            | _ \<Rightarrow> False),
       env_validateGetStaticProps = (\<lambda>data. None),
       env_validateGetServerSideProps = (\<lambda>data. None),
       env_checkRedirectValues = (\<lambda>data url method. Inr data),
       env_isSerializableProps = (\<lambda>page method input. Inr True),
       env_JSON_stringify =
         (\<lambda>p. ''pageProps:'' @ concat (map fst (own_enumerable (pageProps_or_undefined p)))),
       env_isInAmpMode = (\<lambda>a. ampFirst a \<or> (hybrid a \<and> hasQuery a)),
       env_renderShell = (\<lambda>p router. (Inr ''<p>page</p>'', [])),
       env_loadDocumentInitialProps =
         (\<lambda>doc ctx p router. ((Inr (JObj [(''html'', JStr ''<p>page</p>'')]), False), [])),
       env_serializeError = (\<lambda>dev e. e),
       env_renderToString =
         (\<lambda>hp docProps. Inr (''<html>'' @ body_render_target @ ''</html>'',
                              [''Main'', ''Head'', ''NextScript'', ''Html''])),
       env_bodyResult =
         (\<lambda>src suffix. Inr ((case src of FromDocProps h \<Rightarrow> h | FromShell h \<Rightarrow> h)
                             @ (case suffix of None \<Rightarrow> [] | Some s \<Rightarrow> s))),
       env_postProcessHTML = (\<lambda>pathname html inAmp hybridAmp. Inr html),
       env_renderResultToResponse =
         (\<lambda>request result hasGsp tc.
            Inr \<lparr> resp_status = 200, resp_body = rr_response result \<rparr>) \<rparr>"

definition example_options ::
  "string \<Rightarrow> getStaticProps_fn option \<Rightarrow> getServerSideProps_fn option \<Rightarrow> string option \<Rightarrow>
   pages_module_options" where
  "example_options page gsp gssp output =
     \<lparr> opt_renderOpts = \<lparr> ro_dev = False, ro_buildId = ''build'',
                           ro_disableOptimizedLoading = False \<rparr>,
       opt_userland = \<lparr> default_export =
                          \<lparr> comp_getInitialProps = None, comp_origGetInitialProps = None,
                            comp_members = [], comp_isValidElementType = True \<rparr>,
                        config_amp = None, getStaticProps = gsp,
                        getStaticPaths = (if CHR ''['' \<in> set page \<and> is_function gsp
                                          then Some () else None),
                        getServerSideProps = gssp \<rparr>,
       opt_page = page,
       opt_App = \<lparr> app_getInitialProps = Some 0, app_origGetInitialProps = Some 0,
                   app_isValidElementType = True \<rparr>,
       opt_Document = \<lparr> doc_getInitialProps = None, doc_builtin_functional = True,
                        doc_isValidElementType = True \<rparr>,
       opt_config = \<lparr> cfg_output = output, cfg_basePath = [], cfg_assetPrefix = [],
                      cfg_amp_canonicalBase = None, cfg_i18n_domains = None \<rparr> \<rparr>"

definition example_module ::
  "string \<Rightarrow> getStaticProps_fn option \<Rightarrow> getServerSideProps_fn option \<Rightarrow> string option \<Rightarrow>
   pages_module" where
  "example_module page gsp gssp output =
     new_PagesRouteModule (example_env True (app_props None))
       (example_options page gsp gssp output)"

definition example_request :: "string \<Rightarrow> incoming_message option \<Rightarrow> next_request" where
  "example_request pathname original =
     \<lparr> req_url = pathname, req_pathname = pathname, req_method = ''GET'',
       req_cookies = JObj [], req_headers = JObj [], req_body = JNull,
       req_originalRequest = original \<rparr>"

definition node_request :: "incoming_message option" where
  "node_request = Some \<lparr> im_id = 0, im_nextStrippedLocale = False \<rparr>"

definition example_context :: "string \<Rightarrow> jsobj \<Rightarrow> bool option \<Rightarrow> handler_context" where
  "example_context page query isDataReq =
     \<lparr> hc_export = False, hc_params = None, hc_prerender_preview = Some (JObj []),
       hc_reactLoadable = (\<lambda>md. None),
       hc_renderOpts =
         \<lparr> ctx_page = page, ctx_statusCode = 200, ctx_ampPath = None,
           ctx_customServer = None, ctx_distDir = None, ctx_isDataReq = isDataReq,
           ctx_resolvedAsPath = None, ctx_query = query, ctx_resolvedUrl = page,
           ctx_err = None, ctx_runtime = None, ctx_runtimeConfig = None, ctx_locale = None,
           ctx_locales = None, ctx_defaultLocale = None, ctx_isLocaleDomain = None \<rparr> \<rparr>"

definition example_render_context :: "string \<Rightarrow> jsobj \<Rightarrow> bool option \<Rightarrow> render_context" where
  "example_render_context page query isDataReq =
     \<lparr> rc_context = example_context page query isDataReq, rc_req = node_request,
       rc_isPreviewMode = False, rc_previewData = JBool False \<rparr>"

text \<open>A \<open>getStaticProps\<close> that resolves to \<open>{props: {id: "1"}}\<close>, the initial props of
  a custom App that supplies the page prop \<open>x\<close>, and those of the default App.\<close>

definition id_props :: getStaticProps_fn where
  "id_props = (\<lambda>c. Inr [(''props'', JObj [(''id'', JStr ''1'')])])"

definition custom_app_props :: props where
  "custom_app_props = app_props (Some (JObj [(''x'', JNum 1)]))"

definition not_found_and_redirect :: getStaticProps_fn where
  "not_found_and_redirect =
     (\<lambda>c. Inr [(''notFound'', JBool True),
               (''redirect'', JObj [(''destination'', JStr ''/''), (''permanent'', JBool False)])])"

definition enoent_error :: jsval where
  "enoent_error = JObj [(''name'', JStr ''Error''), (''message'', JStr ''no such file''),
                        (''code'', JStr ''ENOENT'')]"

definition revalidate_props :: "jsval \<Rightarrow> getStaticProps_fn" where
  "revalidate_props v = (\<lambda>c. Inr [(''props'', JObj []), (''revalidate'', v)])"



definition empty_server_props :: getServerSideProps_fn where
  "empty_server_props = (\<lambda>c. (Inr [(''props'', JObj [])], False))"

definition default_app_props :: props where
  "default_app_props = app_props (Some (JObj []))"

text \<open>A module with a custom App, one whose \<open>getInitialProps\<close> is not the original
  one, and a \<open>getStaticProps\<close> that resolves to \<open>{notFound: true, revalidate: v}\<close>.\<close>

definition custom_App :: app_component where
  "custom_App = \<lparr> app_getInitialProps = Some 1, app_origGetInitialProps = Some 0,
                  app_isValidElementType = True \<rparr>"

definition with_custom_App :: "pages_module \<Rightarrow> pages_module" where
  "with_custom_App m = m\<lparr>pm_App := custom_App\<rparr>"


section \<open>Laws of the run combinators\<close>

lemma run_bind_ok [simp]: "run_bind (run_ok x) f = f x"
  by (simp add: run_bind_def run_ok_def)

lemma run_bind_throw [simp]: "run_bind (run_throw e) f = run_throw e"
  by (simp add: run_bind_def run_throw_def)

lemma run_bind_assoc: "run_bind (run_bind m f) g = run_bind m (\<lambda>x. run_bind (f x) g)"
  by (rule ext) (simp add: run_bind_def split: prod.splits sum.splits)

lemma run_bind_apply:
  "run_bind m f w = (case fst (m w) of Inl e \<Rightarrow> (Inl e, snd (m w)) | Inr x \<Rightarrow> f x (snd (m w)))"
  by (cases "m w") (simp add: run_bind_def split: sum.splits)

lemma run_bind_Inl: "fst (m w) = Inl e \<Longrightarrow> run_bind m f w = (Inl e, snd (m w))"
  by (simp add: run_bind_apply)

lemma run_bind_Inr: "fst (m w) = Inr x \<Longrightarrow> run_bind m f w = f x (snd (m w))"
  by (simp add: run_bind_apply)

lemma run_ok_apply: "run_ok x w = (Inr x, w)"
  by (simp add: run_ok_def)

lemma run_throw_apply: "run_throw e w = (Inl e, w)"
  by (simp add: run_throw_def)

lemma run_emit_apply: "run_emit ev w = (Inr (), w\<lparr>trace := trace w @ [ev]\<rparr>)"
  by (simp add: run_emit_def)

lemma run_when_simps [simp]: "run_when True m = m" "run_when False m = run_ok ()"
  by (simp_all add: run_when_def)

lemma run_pure_simps [simp]:
  "run_pure (Inr x) = run_ok x" "run_pure (Inl v) = run_throw (Thrown v)"
  by (simp_all add: run_pure_def)

lemma run_result_simps [simp]:
  "run_result (Inr x) = run_ok x" "run_result (Inl e) = run_throw e"
  by (simp_all add: run_result_def)

lemma run_validate_simps [simp]:
  "run_validate None = run_ok ()" "run_validate (Some v) = run_throw (Thrown v)"
  by (simp_all add: run_validate_def)

lemma run_external_Inr:
  "run_external (Inr x, s) w = (Inr x, w\<lparr>res_sent := (res_sent w \<or> s)\<rparr>)"
  by (simp add: run_external_def)

lemma run_external_Inl:
  "run_external (Inl v, s) w = (Inl (Thrown v), w\<lparr>res_sent := (res_sent w \<or> s)\<rparr>)"
  by (simp add: run_external_def)

lemmas run_apply =
  run_bind_apply run_ok_apply run_throw_apply run_emit_apply run_external_Inr run_external_Inl

section \<open>Events emitted by the parts of the module\<close>

lemma only_emitsD:
  "only_emits P m \<Longrightarrow> \<exists>evs. trace (snd (m w)) = trace w @ evs \<and> list_all P evs"
  by (simp add: only_emits_def)

lemma events_of_append: "trace (snd (m w)) = trace w @ evs \<Longrightarrow> events_of m w = evs"
  by (simp add: events_of_def)

lemma only_emits_events_of: "only_emits P m \<Longrightarrow> list_all P (events_of m w)"
  using only_emitsD[of P m w] by (auto simp: events_of_append)

lemma only_emits_ok [simp]: "only_emits P (run_ok x)"
  by (simp add: only_emits_def run_ok_def)

lemma only_emits_throw [simp]: "only_emits P (run_throw e)"
  by (simp add: only_emits_def run_throw_def)

lemma only_emits_isResSent [simp]: "only_emits P run_isResSent"
  by (simp add: only_emits_def run_isResSent_def)

lemma only_emits_external [simp]: "only_emits P (run_external r)"
  by (simp add: only_emits_def run_external_def)

lemma only_emits_pure [simp]: "only_emits P (run_pure r)"
  by (cases r) simp_all

lemma only_emits_result [simp]: "only_emits P (run_result r)"
  by (cases r) simp_all

lemma only_emits_validate [simp]: "only_emits P (run_validate r)"
  by (cases r) simp_all

lemma only_emits_emit [simp]: "only_emits P (run_emit ev) = P ev"
  by (auto simp add: only_emits_def run_emit_def)

lemma only_emits_bind:
  assumes "only_emits P m" and "\<And>x. only_emits P (f x)"
  shows "only_emits P (run_bind m f)"
proof (unfold only_emits_def, intro allI)
  fix w
  from assms(1) obtain evs where m: "trace (snd (m w)) = trace w @ evs" "list_all P evs"
    unfolding only_emits_def by blast
  show "\<exists>evs. trace (snd (run_bind m f w)) = trace w @ evs \<and> list_all P evs"
  proof (cases "fst (m w)")
    case (Inl e)
    with m show ?thesis by (auto simp: run_bind_Inl)
  next
    case (Inr x)
    from assms(2)[of x] obtain evs' where
      "trace (snd (f x (snd (m w)))) = trace (snd (m w)) @ evs'" "list_all P evs'"
      unfolding only_emits_def by blast
    with m Inr show ?thesis by (intro exI[of _ "evs @ evs'"]) (simp add: run_bind_Inr)
  qed
qed

lemma only_emits_when: "(c \<Longrightarrow> only_emits P m) \<Longrightarrow> only_emits P (run_when c m)"
  by (cases c) simp_all

lemma only_emits_if:
  "(c \<Longrightarrow> only_emits P a) \<Longrightarrow> (\<not> c \<Longrightarrow> only_emits P b) \<Longrightarrow> only_emits P (if c then a else b)"
  by simp

lemma only_emits_case_prod:
  "(\<And>a b. only_emits P (f a b)) \<Longrightarrow> only_emits P (case x of (a, b) \<Rightarrow> f a b)"
  by (cases x) simp

lemma only_emits_case_option:
  "only_emits P a \<Longrightarrow> (\<And>y. only_emits P (f y)) \<Longrightarrow>
   only_emits P (case x of None \<Rightarrow> a | Some y \<Rightarrow> f y)"
  by (cases x) simp_all

lemma only_emits_case_sum:
  "(\<And>y. only_emits P (f y)) \<Longrightarrow> (\<And>y. only_emits P (g y)) \<Longrightarrow>
   only_emits P (case x of Inl y \<Rightarrow> f y | Inr y \<Rightarrow> g y)"
  by (cases x) simp_all

lemma only_emits_case_step:
  "(\<And>r. only_emits P (f r)) \<Longrightarrow> (\<And>p md. only_emits P (g p md)) \<Longrightarrow>
   only_emits P (case x of Return r \<Rightarrow> f r | Continue p md \<Rightarrow> g p md)"
  by (cases x) simp_all

lemma only_emits_let: "only_emits P (f x) \<Longrightarrow> only_emits P (Let x f)"
  by simp

lemmas emits_intros =
  only_emits_let only_emits_bind only_emits_if only_emits_when only_emits_case_prod
  only_emits_case_option only_emits_case_sum only_emits_case_step
  only_emits_ok only_emits_throw only_emits_pure only_emits_result only_emits_validate
  only_emits_external only_emits_isResSent

lemma setup_dev_checks_emits: "only_emits P (setup_dev_checks m page)"
  unfolding setup_dev_checks_def by (intro emits_intros)

lemma setup_checks_emits:
  assumes "\<And>s. P (Warned s)"
  shows "only_emits P (setup_checks m page nextExport dev)"
  unfolding setup_checks_def
  by (intro emits_intros setup_dev_checks_emits) (simp add: assms)

lemma notFound_step_emits: "only_emits P (notFound_step pathname data md)"
  unfolding notFound_step_def by (intro emits_intros)

lemma static_redirect_step_emits: "only_emits P (static_redirect_step env url export data md)"
  unfolding static_redirect_step_def by (intro emits_intros)

lemma server_redirect_step_emits: "only_emits P (server_redirect_step env url data md)"
  unfolding server_redirect_step_def by (intro emits_intros)

lemma revalidate_step_emits: "only_emits P (revalidate_step m url data md)"
  unfolding revalidate_step_def by (intro emits_intros)

lemma serializable_step_emits:
  "only_emits P (serializable_step env c pathname method invariant data)"
  unfolding serializable_step_def by (intro emits_intros)

lemmas step_emits =
  notFound_step_emits static_redirect_step_emits server_redirect_step_emits
  revalidate_step_emits serializable_step_emits

lemma static_props_result_emits:
  "only_emits P (static_props_result env m request rc rl p md data)"
  unfolding static_props_result_def by (intro emits_intros step_emits)

lemma static_props_block_emits:
  assumes "\<And>c. P (GetStaticPropsCalled c)"
  shows "only_emits P (static_props_block env m request rc rl p md)"
  unfolding static_props_block_def call_getStaticProps_def
  by (intro emits_intros static_props_result_emits) (simp add: assms)

lemma await_props_emits: "only_emits P (await_props data)"
  unfolding await_props_def by (auto split: jsval.splits)

lemma server_side_props_result_emits:
  "only_emits P (server_side_props_result env m request rc rl p md data)"
  unfolding server_side_props_result_def by (intro emits_intros step_emits await_props_emits)

lemma server_side_props_block_emits:
  assumes "\<And>c. P (GetServerSidePropsCalled c)"
  shows "only_emits P (server_side_props_block env m request rc rl p md)"
  unfolding server_side_props_block_def call_getServerSideProps_def
  by (intro emits_intros server_side_props_result_emits) (simp add: assms)

lemma load_app_props_emits:
  assumes "P AppInitialPropsLoaded"
  shows "only_emits P (load_app_props env m rl)"
  unfolding load_app_props_def by (intro emits_intros) (simp add: assms)

lemma fetch_page_props_emits:
  assumes "P AppInitialPropsLoaded" "\<And>c. P (GetStaticPropsCalled c)"
    "\<And>c. P (GetServerSidePropsCalled c)"
  shows "only_emits P (fetch_page_props env m request rc rl)"
  unfolding fetch_page_props_def
  by (intro emits_intros load_app_props_emits static_props_block_emits
      server_side_props_block_emits assms)

lemma reserved_url_warning_emits:
  assumes "\<And>s. P (Warned s)"
  shows "only_emits P (reserved_url_warning env m p)"
  unfolding reserved_url_warning_def by (intro emits_intros) (simp add: assms)

lemma renderDocument_emits: "only_emits P (renderDocument env m rl p)"
  unfolding renderDocument_def by (intro emits_intros)

lemma assemble_document_emits:
  assumes "P DocumentRenderStarted"
    "\<And>dr. P (DocumentRendered (html_props_of env m rc rl p md dr))" "\<And>s. P (Warned s)"
  shows "only_emits P (assemble_document env m rc rl p md)"
  unfolding assemble_document_def
  by (intro emits_intros renderDocument_emits) (simp_all add: assms)

lemma finish_render_emits:
  assumes "P DocumentRenderStarted"
    "\<And>dr. P (DocumentRendered (html_props_of env m rc rl p md dr))" "\<And>s. P (Warned s)"
  shows "only_emits P (finish_render env m rc rl p md)"
  unfolding finish_render_def
  by (intro emits_intros reserved_url_warning_emits assemble_document_emits assms)

lemma render_emits:
  assumes "P AppInitialPropsLoaded" "\<And>c. P (GetStaticPropsCalled c)"
    "\<And>c. P (GetServerSidePropsCalled c)" "P DocumentRenderStarted"
    "\<And>hp. P (DocumentRendered hp)" "\<And>s. P (Warned s)"
  shows "only_emits P (render env m request rc)"
  unfolding render_def
  by (intro emits_intros fetch_page_props_emits finish_render_emits assms)

lemma resolve_preview_emits:
  assumes "P PreviewDataRead"
  shows "only_emits P (resolve_preview env m req hc)"
  unfolding resolve_preview_def by (intro emits_intros) (simp add: assms)

lemma transform_emits:
  assumes "P Transformed"
  shows "only_emits P (transform env m request result tc)"
  unfolding transform_def by (intro emits_intros) (simp add: assms)

lemma reset_response_emits: "only_emits P (\<lambda>w. (Inr (), w\<lparr>res_sent := False\<rparr>))"
  by (simp add: only_emits_def)

lemma after_setup_emits:
  "only_emits (\<lambda>ev. \<not> is_SetupRun ev)
     (run_bind (setup_checks m page nextExport dev) (\<lambda>_.
      run_bind (\<lambda>w. (Inr (), w\<lparr>res_sent := False\<rparr>)) (\<lambda>_.
      let req = req_originalRequest request in
      run_bind (resolve_preview env m req hc) (\<lambda>(previewData, isPreviewMode).
      run_bind (render env m request
                 \<lparr> rc_context = hc, rc_req = req, rc_isPreviewMode = isPreviewMode,
                   rc_previewData = previewData \<rparr>) (\<lambda>result.
      run_bind run_isResSent (\<lambda>sent.
        transform env m request result
          \<lparr> tc_isResSent = sent,
            tc_isDataReq = flag_set (ctx_isDataReq (hc_renderOpts hc)),
            tc_isPreviewMode = isPreviewMode \<rparr>))))))"
  by (intro emits_intros setup_checks_emits reset_response_emits resolve_preview_emits
      render_emits transform_emits) simp_all

lemma handle_unfold:
  "handle env m request hc =
     run_bind (run_emit (SetupRun (ctx_page (hc_renderOpts hc)))) (\<lambda>_.
     run_bind (setup_checks m (ctx_page (hc_renderOpts hc)) (hc_export hc)
                 (ro_dev (pm_renderOpts m))) (\<lambda>_.
      run_bind (\<lambda>w. (Inr (), w\<lparr>res_sent := False\<rparr>)) (\<lambda>_.
      let req = req_originalRequest request in
      run_bind (resolve_preview env m req hc) (\<lambda>(previewData, isPreviewMode).
      run_bind (render env m request
                 \<lparr> rc_context = hc, rc_req = req, rc_isPreviewMode = isPreviewMode,
                   rc_previewData = previewData \<rparr>) (\<lambda>result.
      run_bind run_isResSent (\<lambda>sent.
        transform env m request result
          \<lparr> tc_isResSent = sent,
            tc_isDataReq = flag_set (ctx_isDataReq (hc_renderOpts hc)),
            tc_isPreviewMode = isPreviewMode \<rparr>))))))"
  unfolding handle_def setup_module_def run_bind_assoc ..

lemma handle_trace:
  "\<exists>evs. trace (snd (handle env m request hc w))
           = trace w @ SetupRun (ctx_page (hc_renderOpts hc)) # evs
         \<and> list_all (\<lambda>ev. \<not> is_SetupRun ev) evs"
proof -
  let ?rest = "run_bind (setup_checks m (ctx_page (hc_renderOpts hc)) (hc_export hc)
                 (ro_dev (pm_renderOpts m))) (\<lambda>_.
      run_bind (\<lambda>w. (Inr (), w\<lparr>res_sent := False\<rparr>)) (\<lambda>_.
      let req = req_originalRequest request in
      run_bind (resolve_preview env m req hc) (\<lambda>(previewData, isPreviewMode).
      run_bind (render env m request
                 \<lparr> rc_context = hc, rc_req = req, rc_isPreviewMode = isPreviewMode,
                   rc_previewData = previewData \<rparr>) (\<lambda>result.
      run_bind run_isResSent (\<lambda>sent.
        transform env m request result
          \<lparr> tc_isResSent = sent,
            tc_isDataReq = flag_set (ctx_isDataReq (hc_renderOpts hc)),
            tc_isPreviewMode = isPreviewMode \<rparr>)))))"
  let ?w1 = "w\<lparr>trace := trace w @ [SetupRun (ctx_page (hc_renderOpts hc))]\<rparr>"
  have "handle env m request hc w = ?rest ?w1"
    by (simp add: handle_unfold run_apply)
  moreover from only_emitsD[OF after_setup_emits, of m _ _ _ request env hc ?w1]
  obtain evs where "trace (snd (?rest ?w1)) = trace ?w1 @ evs"
    "list_all (\<lambda>ev. \<not> is_SetupRun ev) evs" by blast
  ultimately show ?thesis by auto
qed

lemma setup_runs_append [simp]: "setup_runs (xs @ ys) = setup_runs xs + setup_runs ys"
  by (simp add: setup_runs_def)

lemma setup_runs_none: "list_all (\<lambda>ev. \<not> is_SetupRun ev) evs \<Longrightarrow> setup_runs evs = 0"
  by (induction evs) (auto simp: setup_runs_def)

lemma handle_setup_runs:
  "setup_runs (trace (snd (handle env m request hc w))) = Suc (setup_runs (trace w))"
proof -
  from handle_trace[of env m request hc w] obtain evs where
    "trace (snd (handle env m request hc w)) = trace w @ SetupRun (ctx_page (hc_renderOpts hc)) # evs"
    "list_all (\<lambda>ev. \<not> is_SetupRun ev) evs" by blast
  then show ?thesis using setup_runs_none[of evs] by (simp add: setup_runs_def)
qed

lemma handle_all_setup_runs:
  "setup_runs (trace (snd (handle_all env m rqs w))) = setup_runs (trace w) + length rqs"
  by (induction rqs arbitrary: w) (simp_all add: Let_def handle_setup_runs)


section \<open>Values returned by the parts of the module\<close>

lemma returnsD: "returns Q m \<Longrightarrow> fst (m w) = Inr x \<Longrightarrow> Q x"
  by (simp add: returns_def)

lemma returns_ok [simp]: "returns Q (run_ok x) = Q x"
  by (simp add: returns_def run_ok_def)

lemma returns_throw [simp]: "returns Q (run_throw e)"
  by (simp add: returns_def run_throw_def)

lemma returns_bind:
  assumes "\<And>x. returns Q (f x)"
  shows "returns Q (run_bind m f)"
  unfolding returns_def
proof (intro allI impI)
  fix w x
  assume r: "fst (run_bind m f w) = Inr x"
  show "Q x"
  proof (cases "fst (m w)")
    case (Inl e)
    with r show ?thesis by (simp add: run_bind_Inl)
  next
    case (Inr y)
    with r have "fst (f y (snd (m w))) = Inr x" by (simp add: run_bind_Inr)
    with assms[of y] show ?thesis by (simp add: returns_def)
  qed
qed

lemma returns_bind_with:
  assumes "returns R m" and "\<And>x. R x \<Longrightarrow> returns Q (f x)"
  shows "returns Q (run_bind m f)"
  unfolding returns_def
proof (intro allI impI)
  fix w x
  assume r: "fst (run_bind m f w) = Inr x"
  show "Q x"
  proof (cases "fst (m w)")
    case (Inl e)
    with r show ?thesis by (simp add: run_bind_Inl)
  next
    case (Inr y)
    with r have "fst (f y (snd (m w))) = Inr x" by (simp add: run_bind_Inr)
    moreover from assms(1) Inr have "R y" by (simp add: returns_def)
    ultimately show ?thesis using assms(2)[of y] by (simp add: returns_def)
  qed
qed

lemma returns_never: "returns (\<lambda>_. False) m \<Longrightarrow> isl (fst (m w))"
  by (cases "fst (m w)") (auto simp: returns_def)

lemma returns_weaken: "returns Q m \<Longrightarrow> (\<And>x. Q x \<Longrightarrow> Q' x) \<Longrightarrow> returns Q' m"
  by (auto simp: returns_def)

lemma returns_if:
  "(c \<Longrightarrow> returns Q a) \<Longrightarrow> (\<not> c \<Longrightarrow> returns Q b) \<Longrightarrow> returns Q (if c then a else b)"
  by simp

lemma returns_case_prod:
  "(\<And>a b. returns Q (f a b)) \<Longrightarrow> returns Q (case x of (a, b) \<Rightarrow> f a b)"
  by (cases x) simp

lemma returns_case_option:
  "returns Q a \<Longrightarrow> (\<And>y. returns Q (f y)) \<Longrightarrow> returns Q (case x of None \<Rightarrow> a | Some y \<Rightarrow> f y)"
  by (cases x) simp_all

lemma returns_case_sum:
  "(\<And>y. returns Q (f y)) \<Longrightarrow> (\<And>y. returns Q (g y)) \<Longrightarrow>
   returns Q (case x of Inl y \<Rightarrow> f y | Inr y \<Rightarrow> g y)"
  by (cases x) simp_all

lemma returns_case_step:
  "(\<And>r. returns Q (f r)) \<Longrightarrow> (\<And>p md. returns Q (g p md)) \<Longrightarrow>
   returns Q (case x of Return r \<Rightarrow> f r | Continue p md \<Rightarrow> g p md)"
  by (cases x) simp_all

lemma returns_let: "returns Q (f x) \<Longrightarrow> returns Q (Let x f)"
  by simp

lemmas returns_intros =
  returns_let returns_bind returns_if returns_case_prod returns_case_option
  returns_case_sum returns_case_step returns_throw

lemma only_emits_bind_with:
  assumes "only_emits P m" and "returns R m" and "\<And>x. R x \<Longrightarrow> only_emits P (f x)"
  shows "only_emits P (run_bind m f)"
proof (unfold only_emits_def, intro allI)
  fix w
  from assms(1) obtain evs where m: "trace (snd (m w)) = trace w @ evs" "list_all P evs"
    unfolding only_emits_def by blast
  show "\<exists>evs. trace (snd (run_bind m f w)) = trace w @ evs \<and> list_all P evs"
  proof (cases "fst (m w)")
    case (Inl e)
    with m show ?thesis by (auto simp: run_bind_Inl)
  next
    case (Inr x)
    with assms(2) have "R x" by (simp add: returns_def)
    from assms(3)[OF this] obtain evs' where
      "trace (snd (f x (snd (m w)))) = trace (snd (m w)) @ evs'" "list_all P evs'"
      unfolding only_emits_def by blast
    with m Inr show ?thesis by (intro exI[of _ "evs @ evs'"]) (simp add: run_bind_Inr)
  qed
qed

text \<open>The App's initial props are what the loader answers.\<close>

lemma load_app_props_returns:
  "returns (\<lambda>p. \<exists>sent. env_loadAppInitialProps env (pm_App m) (default_export (pm_userland m))
                          (rl_router rl) (rl_ctx rl) = (Inr p, sent))
     (load_app_props env m rl)"
  by (cases "env_loadAppInitialProps env (pm_App m) (default_export (pm_userland m))
                (rl_router rl) (rl_ctx rl)")
     (auto simp: returns_def load_app_props_def run_apply run_external_def Let_def
           split: sum.splits)

lemma load_app_props_apply:
  assumes "env_loadAppInitialProps env (pm_App m) (default_export (pm_userland m))
             (rl_router rl) (rl_ctx rl) = (Inr props0, sent)"
  shows "fst (load_app_props env m rl w) = Inr props0"
  using assms by (simp add: load_app_props_def run_apply Let_def)

text \<open>A block returns from \<open>render\<close> early only with a null response marked not
  found.\<close>

lemma static_props_result_Return:
  "returns (\<lambda>step. \<forall>r. step = Return r \<longrightarrow> not_found_result r)
     (static_props_result env m request rc rl p md data)"
  unfolding static_props_result_def
  by (intro returns_intros) (simp_all add: not_found_result_def flag_set_def Let_def)

lemma static_props_block_Return:
  "returns (\<lambda>step. \<forall>r. step = Return r \<longrightarrow> not_found_result r)
     (static_props_block env m request rc rl p md)"
  unfolding static_props_block_def
  by (intro returns_intros static_props_result_Return) simp_all

lemma server_side_props_result_Return:
  "returns (\<lambda>step. \<forall>r. step = Return r \<longrightarrow> not_found_result r)
     (server_side_props_result env m request rc rl p md data)"
  unfolding server_side_props_result_def
  by (intro returns_intros) (simp_all add: not_found_result_def Let_def)

lemma server_side_props_block_Return:
  "returns (\<lambda>step. \<forall>r. step = Return r \<longrightarrow> not_found_result r)
     (server_side_props_block env m request rc rl p md)"
  unfolding server_side_props_block_def
  by (intro returns_intros server_side_props_result_Return) simp_all

lemma fetch_page_props_Return:
  "returns (\<lambda>step. \<forall>r. step = Return r \<longrightarrow> not_found_result r)
     (fetch_page_props env m request rc rl)"
  unfolding fetch_page_props_def
  by (intro returns_bind returns_let returns_bind_with[OF static_props_block_Return])
     (auto split: fetch_step.splits intro: server_side_props_block_Return)

section \<open>The validation gate\<close>

lemma setup_checks_conflict:
  assumes "(has_getStaticProps m \<and> has_getServerSideProps m) \<or>
           (has_getStaticProps m \<and> has_getInitialProps m) \<or>
           (has_getServerSideProps m \<and> has_getInitialProps m)"
  shows "fst (setup_checks m page nextExport dev w) \<in>
           Inl ` {ServerPropsExportError page, SsgGetInitialPropsConflict page,
                  ServerPropsGetInitPropsConflict page, ServerPropsSsgConflict page}"
  using assms
  by (auto simp: setup_checks_def Let_def run_apply run_when_def has_getStaticProps_def
        has_getServerSideProps_def has_getInitialProps_def)

text \<open>
  Claim C1. A userland module that declares more than one of \<open>getStaticProps\<close>,
  \<open>getServerSideProps\<close> and \<open>getInitialProps\<close> (any pair of the three) makes
  \<open>setup\<close> throw one of its configuration errors, whatever the page and the flags.
  \<open>handle\<close> calls \<open>setup\<close> first, so handling a request of such a module ends
  with that error in the state \<open>setup\<close> left: nothing of the request has run.
\<close>

theorem setup_rejects_conflicting_data_fetching:
  assumes "(has_getStaticProps m \<and> has_getServerSideProps m) \<or>
           (has_getStaticProps m \<and> has_getInitialProps m) \<or>
           (has_getServerSideProps m \<and> has_getInitialProps m)"
  shows "(\<exists>e w'. setup_module m page nextExport dev w = (Inl e, w') \<and>
            e \<in> {ServerPropsExportError page, SsgGetInitialPropsConflict page,
                  ServerPropsGetInitPropsConflict page, ServerPropsSsgConflict page})
       \<and> (\<exists>e w'. setup_module m (ctx_page (hc_renderOpts hc)) (hc_export hc)
                    (ro_dev (pm_renderOpts m)) w = (Inl e, w') \<and>
                  handle env m request hc w = (Inl e, w'))"
proof -
  have fails: "\<exists>e w'. setup_module m pg ne dv w = (Inl e, w') \<and>
            e \<in> {ServerPropsExportError pg, SsgGetInitialPropsConflict pg,
                  ServerPropsGetInitPropsConflict pg, ServerPropsSsgConflict pg}" for pg ne dv
  proof -
    let ?w1 = "w\<lparr>trace := trace w @ [SetupRun pg]\<rparr>"
    from setup_checks_conflict[OF assms, of pg ne dv ?w1]
    obtain e where e: "fst (setup_checks m pg ne dv ?w1) = Inl e"
      "e \<in> {ServerPropsExportError pg, SsgGetInitialPropsConflict pg,
             ServerPropsGetInitPropsConflict pg, ServerPropsSsgConflict pg}" by auto
    have "setup_module m pg ne dv w = setup_checks m pg ne dv ?w1"
      by (simp add: setup_module_def run_apply)
    with e show ?thesis by (metis prod.collapse)
  qed
  from fails[of "ctx_page (hc_renderOpts hc)" "hc_export hc" "ro_dev (pm_renderOpts m)"]
  obtain e w' where s: "setup_module m (ctx_page (hc_renderOpts hc)) (hc_export hc)
                    (ro_dev (pm_renderOpts m)) w = (Inl e, w')" by blast
  then have "handle env m request hc w = (Inl e, w')"
    by (simp add: handle_def run_apply)
  with s fails[of page nextExport dev] show ?thesis by blast
qed

text \<open>A module that exports both \<open>getStaticProps\<close> and
  \<open>getServerSideProps\<close>: handling a request fails.\<close>

theorem setup_rejects_conflicting_data_fetching_witness:
  "has_getStaticProps (example_module ''/post'' (Some (\<lambda>c. Inr [])) (Some (\<lambda>c. (Inr [], False))) None)
   \<and> has_getServerSideProps (example_module ''/post'' (Some (\<lambda>c. Inr [])) (Some (\<lambda>c. (Inr [], False))) None)
   \<and> (\<exists>e w'. handle (example_env True (app_props None))
                (example_module ''/post'' (Some (\<lambda>c. Inr [])) (Some (\<lambda>c. (Inr [], False))) None)
                (example_request ''/post'' node_request) (example_context ''/post'' [] None)
                initial_world = (Inl e, w'))"
proof -
  have h: "has_getStaticProps (example_module ''/post'' (Some (\<lambda>c. Inr [])) (Some (\<lambda>c. (Inr [], False))) None)
    \<and> has_getServerSideProps (example_module ''/post'' (Some (\<lambda>c. Inr [])) (Some (\<lambda>c. (Inr [], False))) None)"
    by code_simp
  then have "(has_getStaticProps (example_module ''/post'' (Some (\<lambda>c. Inr [])) (Some (\<lambda>c. (Inr [], False))) None)
      \<and> has_getServerSideProps (example_module ''/post'' (Some (\<lambda>c. Inr [])) (Some (\<lambda>c. (Inr [], False))) None))
     \<or> (has_getStaticProps (example_module ''/post'' (Some (\<lambda>c. Inr [])) (Some (\<lambda>c. (Inr [], False))) None)
      \<and> has_getInitialProps (example_module ''/post'' (Some (\<lambda>c. Inr [])) (Some (\<lambda>c. (Inr [], False))) None))
     \<or> (has_getServerSideProps (example_module ''/post'' (Some (\<lambda>c. Inr [])) (Some (\<lambda>c. (Inr [], False))) None)
      \<and> has_getInitialProps (example_module ''/post'' (Some (\<lambda>c. Inr [])) (Some (\<lambda>c. (Inr [], False))) None))"
    by blast
  from setup_rejects_conflicting_data_fetching[OF this] h show ?thesis by blast
qed

text \<open>
  Claim C7 says that the validation runs exactly once per page-module initialization
  and never as part of handling a request. The constructor does not call \<open>setup\<close>;
  \<open>handle\<close> does, on every call. One module that handles two requests has validated
  twice.
\<close>

theorem validation_runs_again_for_second_request:
  "setup_runs (trace (snd (handle_all (example_env True (app_props (Some (JObj []))))
        (example_module ''/post'' (Some (\<lambda>c. Inr [(''props'', JObj [])])) None None)
        [(example_request ''/post'' node_request, example_context ''/post'' [] None),
         (example_request ''/post'' node_request, example_context ''/post'' [] None)]
        initial_world))) = 2"
  by code_simp

text \<open>
  Claim C7, amended. The validation runs exactly once in every call of \<open>handle\<close>,
  as its first step, before the request is rendered; a module that has handled \<open>n\<close>
  requests has validated \<open>n\<close> times.
\<close>

theorem validation_runs_once_per_handled_request:
  "(\<exists>evs. trace (snd (handle env m request hc w))
            = trace w @ SetupRun (ctx_page (hc_renderOpts hc)) # evs
          \<and> list_all (\<lambda>ev. \<not> is_SetupRun ev) evs)
   \<and> setup_runs (trace (snd (handle_all env m rqs w))) = setup_runs (trace w) + length rqs"
  using handle_trace[of env m request hc w] handle_all_setup_runs[of env m rqs w] by blast

text \<open>Three requests, three validations.\<close>

theorem validation_runs_once_per_handled_request_witness:
  "setup_runs (trace (snd (handle_all (example_env True (app_props (Some (JObj []))))
        (example_module ''/post'' None None None)
        [(example_request ''/post'' node_request, example_context ''/post'' [] None),
         (example_request ''/post'' None, example_context ''/post'' [] None),
         (example_request ''/post'' node_request, example_context ''/post'' [] (Some True))]
        initial_world))) = 3"
  using validation_runs_once_per_handled_request
    [of "example_env True (app_props (Some (JObj [])))" "example_module ''/post'' None None None"
        "example_request ''/post'' node_request" "example_context ''/post'' [] None" initial_world
        "[(example_request ''/post'' node_request, example_context ''/post'' [] None),
         (example_request ''/post'' None, example_context ''/post'' [] None),
         (example_request ''/post'' node_request, example_context ''/post'' [] (Some True))]"]
  by (simp add: initial_world_def setup_runs_def)

section \<open>The values computed from the request\<close>

lemma rl_isFallback_of [simp]:
  "rl_isFallback (render_locals_of env m request rc) =
     truthy (get_key (ctx_query (hc_renderOpts (rc_context rc))) ''__nextFallback'')"
  by (simp add: render_locals_of_def Let_def)

lemma rl_pathname_of [simp]: "rl_pathname (render_locals_of env m request rc) = req_pathname request"
  by (simp add: render_locals_of_def Let_def)

lemma rl_isPreview_of [simp]:
  "rl_isPreview (render_locals_of env m request rc) =
     (\<not> truthy (get_key (ctx_query (hc_renderOpts (rc_context rc))) ''__nextFallback'') \<and>
      rc_isPreviewMode rc)"
  by (simp add: render_locals_of_def Let_def)

lemma rl_previewData_of [simp]:
  "rl_previewData (render_locals_of env m request rc) =
     (if \<not> truthy (get_key (ctx_query (hc_renderOpts (rc_context rc))) ''__nextFallback'')
      then rc_previewData rc else JUndefined)"
  by (simp add: render_locals_of_def Let_def)

lemma rl_query_of_static:
  assumes "has_getStaticProps m \<or> has_getServerSideProps m"
    "\<not> truthy (get_key (ctx_query (hc_renderOpts (rc_context rc))) ''__nextFallback'')"
  shows "rl_query (render_locals_of env m request rc) = ctx_query (hc_renderOpts (rc_context rc))"
  using assms by (auto simp add: render_locals_of_def Let_def)

section \<open>The hydration payload\<close>

lemma rendered_payloads_all:
  "list_all (\<lambda>ev. \<forall>hp. ev = DocumentRendered hp \<longrightarrow> R (hp_NEXT_DATA hp)) evs \<Longrightarrow>
   list_all R (rendered_payloads evs)"
  by (induction evs rule: rendered_payloads.induct) simp_all

lemma finish_render_payload:
  assumes "Q p"
  shows "only_emits (\<lambda>ev. \<forall>hp. ev = DocumentRendered hp \<longrightarrow>
                       Q (nd_props (hp_NEXT_DATA hp)) \<and> nd_query (hp_NEXT_DATA hp) = rl_query rl)
           (finish_render env m rc rl p md)"
  by (rule finish_render_emits) (simp_all add: html_props_of_def next_data_of_def Let_def assms)

lemma render_payload:
  assumes "returns (\<lambda>step. \<forall>p md. step = Continue p md \<longrightarrow> Q p)
             (fetch_page_props env m request rc (render_locals_of env m request rc))"
  shows "only_emits (\<lambda>ev. \<forall>hp. ev = DocumentRendered hp \<longrightarrow>
                       Q (nd_props (hp_NEXT_DATA hp)) \<and>
                       nd_query (hp_NEXT_DATA hp) = rl_query (render_locals_of env m request rc))
           (render env m request rc)"
  unfolding render_def Let_def
proof (rule only_emits_bind_with[OF _ assms])
  show "only_emits (\<lambda>ev. \<forall>hp. ev = DocumentRendered hp \<longrightarrow>
                       Q (nd_props (hp_NEXT_DATA hp)) \<and>
                       nd_query (hp_NEXT_DATA hp) = rl_query (render_locals_of env m request rc))
     (fetch_page_props env m request rc (render_locals_of env m request rc))"
    by (rule fetch_page_props_emits) simp_all
next
  fix step
  assume "\<forall>p md. step = Continue p md \<longrightarrow> Q p"
  then show "only_emits (\<lambda>ev. \<forall>hp. ev = DocumentRendered hp \<longrightarrow>
                       Q (nd_props (hp_NEXT_DATA hp)) \<and>
                       nd_query (hp_NEXT_DATA hp) = rl_query (render_locals_of env m request rc))
     (case step of Return r \<Rightarrow> run_ok r
      | Continue p md \<Rightarrow> finish_render env m rc (render_locals_of env m request rc) p md)"
    by (cases step) (simp_all add: finish_render_payload)
qed

lemma render_payloads:
  assumes "returns (\<lambda>step. \<forall>p md. step = Continue p md \<longrightarrow> Q p)
             (fetch_page_props env m request rc (render_locals_of env m request rc))"
  shows "list_all (\<lambda>nd. Q (nd_props nd) \<and>
                        nd_query nd = rl_query (render_locals_of env m request rc))
           (rendered_payloads (events_of (render env m request rc) w))"
  by (rule rendered_payloads_all)
     (rule only_emits_events_of[OF render_payload[OF assms]])

section \<open>Fallback renders\<close>

lemma static_props_block_fallback:
  assumes "rl_isFallback rl"
  shows "static_props_block env m request rc rl p md =
           run_ok (Continue (if has_getStaticProps m then p\<lparr>props_STATIC_PROPS_ID := Some True\<rparr>
                             else p) md)"
  using assms
  by (simp add: static_props_block_def has_getStaticProps_def is_function_def Let_def
           split: option.splits)

lemma server_side_props_block_fallback:
  assumes "rl_isFallback rl"
  shows "server_side_props_block env m request rc rl p md =
           run_ok (if has_getServerSideProps m
                   then Continue (p\<lparr>props_SERVER_PROPS_ID := Some True\<rparr>)
                          (sync_pageData md (p\<lparr>props_SERVER_PROPS_ID := Some True\<rparr>))
                   else Continue p md)"
  using assms
  by (simp add: server_side_props_block_def has_getServerSideProps_def is_function_def Let_def
           split: option.splits)

lemma fetch_page_props_fallback_emits:
  assumes "rl_isFallback rl" "P AppInitialPropsLoaded"
  shows "only_emits P (fetch_page_props env m request rc rl)"
  unfolding fetch_page_props_def
  by (intro emits_intros load_app_props_emits assms)
     (simp_all add: static_props_block_fallback server_side_props_block_fallback assms)

lemma fetch_page_props_fallback_returns:
  assumes "rl_isFallback rl"
    and "env_loadAppInitialProps env (pm_App m) (default_export (pm_userland m))
           (rl_router rl) (rl_ctx rl) = (Inr props0, sent)"
  shows "returns (\<lambda>step. \<forall>p md. step = Continue p md \<longrightarrow>
                    props_pageProps p = props_pageProps props0)
           (fetch_page_props env m request rc rl)"
  unfolding fetch_page_props_def
proof (rule returns_bind_with[OF load_app_props_returns])
  fix x
  assume "\<exists>sent. env_loadAppInitialProps env (pm_App m) (default_export (pm_userland m))
                    (rl_router rl) (rl_ctx rl) = (Inr x, sent)"
  with assms(2) have "x = props0" by simp
  then show "returns (\<lambda>step. \<forall>p md. step = Continue p md \<longrightarrow>
                    props_pageProps p = props_pageProps props0)
     (let p1 = if (has_getStaticProps m \<or> has_getServerSideProps m) \<and> rl_isPreview rl
               then x\<lparr>props_N_PREVIEW := Some True\<rparr> else x
      in run_bind (static_props_block env m request rc rl p1 (initial_metadata env m))
           (\<lambda>step1. case step1 of Return r \<Rightarrow> run_ok (Return r)
                     | Continue p2 md2 \<Rightarrow> server_side_props_block env m request rc rl p2 md2))"
    by (simp add: static_props_block_fallback server_side_props_block_fallback assms(1) Let_def)
qed

text \<open>
  Every fallback render (\<open>query.__nextFallback\<close> truthy) of a page that declares
  \<open>getStaticProps\<close>: \<open>render\<close> never calls the user's \<open>getStaticProps\<close>, and since no
  statement resets them, the \<open>pageProps\<close> of every hydration payload are whatever the
  App's initial props hold. They are empty only when the App supplies none.
\<close>

theorem fallback_render_skips_getStaticProps:
  assumes "truthy (get_key (ctx_query (hc_renderOpts (rc_context rc))) ''__nextFallback'')"
    and "has_getStaticProps m"
  shows "list_all (\<lambda>ev. \<not> is_GetStaticPropsCalled ev) (events_of (render env m request rc) w)
       \<and> (\<forall>props0 sent.
            env_loadAppInitialProps env (pm_App m) (default_export (pm_userland m))
              (rl_router (render_locals_of env m request rc))
              (rl_ctx (render_locals_of env m request rc)) = (Inr props0, sent) \<longrightarrow>
            list_all (\<lambda>nd. props_pageProps (nd_props nd) = props_pageProps props0)
              (rendered_payloads (events_of (render env m request rc) w)))"
proof (intro conjI allI impI)
  have "only_emits (\<lambda>ev. \<not> is_GetStaticPropsCalled ev) (render env m request rc)"
    unfolding render_def Let_def
    by (intro emits_intros fetch_page_props_fallback_emits finish_render_emits)
       (simp_all add: assms)
  then show "list_all (\<lambda>ev. \<not> is_GetStaticPropsCalled ev) (events_of (render env m request rc) w)"
    by (rule only_emits_events_of)
next
  fix props0 sent
  assume "env_loadAppInitialProps env (pm_App m) (default_export (pm_userland m))
              (rl_router (render_locals_of env m request rc))
              (rl_ctx (render_locals_of env m request rc)) = (Inr props0, sent)"
  from fetch_page_props_fallback_returns[OF _ this, of request rc] assms(1)
  have "returns (\<lambda>step. \<forall>p md. step = Continue p md \<longrightarrow>
                    props_pageProps p = props_pageProps props0)
           (fetch_page_props env m request rc (render_locals_of env m request rc))" by simp
  from render_payloads[OF this, of w]
  show "list_all (\<lambda>nd. props_pageProps (nd_props nd) = props_pageProps props0)
              (rendered_payloads (events_of (render env m request rc) w))"
    by (simp add: list_all_iff)
qed


section \<open>Data requests\<close>

lemma finish_render_data_request:
  assumes "ctx_isDataReq (hc_renderOpts (rc_context rc)) = Some True" "has_getServerSideProps m"
  shows "finish_render env m rc rl p md =
           run_ok \<lparr>rr_response = Some (env_JSON_stringify env p), rr_metadata = md\<rparr>"
  using assms by (simp add: finish_render_def reserved_url_warning_def flag_set_def)


lemma fetch_page_props_only_data_events:
  "only_emits (\<lambda>ev. \<not> is_document_event ev) (fetch_page_props env m request rc rl)"
  by (rule fetch_page_props_emits) simp_all

section \<open>From the blocks to the result of \<open>render\<close>\<close>

lemma call_getStaticProps_returns:
  assumes "f gctx = Inr data"
  shows "returns (\<lambda>d. d = data) (call_getStaticProps env f gctx)"
  using assms by (simp add: returns_def call_getStaticProps_def run_apply)

lemma call_getStaticProps_throws:
  assumes "f gctx = Inl err"
  shows "fst (call_getStaticProps env f gctx w) = Inl (Thrown (strip_not_found_code env err))"
  using assms by (simp add: call_getStaticProps_def run_apply)

lemma static_props_block_known:
  assumes "getStaticProps (pm_userland m) = Some f" "\<not> rl_isFallback rl"
    and "f (getStaticProps_context m rc rl) = Inr data"
    and "returns Q (static_props_result env m request rc rl
                      (p\<lparr>props_STATIC_PROPS_ID := Some True\<rparr>) md data)"
  shows "returns Q (static_props_block env m request rc rl p md)"
  using assms(1,2,4)
  by (simp add: static_props_block_def Let_def)
     (rule returns_bind_with[OF call_getStaticProps_returns
             [of f "getStaticProps_context m rc rl" data env, OF assms(3)]], simp)

lemma fetch_page_props_static_known:
  assumes "getStaticProps (pm_userland m) = Some f" "\<not> rl_isFallback rl"
    and "f (getStaticProps_context m rc rl) = Inr data"
    and "env_loadAppInitialProps env (pm_App m) (default_export (pm_userland m))
           (rl_router rl) (rl_ctx rl) = (Inr props0, sent)"
    and "returns Q1 (static_props_result env m request rc rl
           ((if rl_isPreview rl then props0\<lparr>props_N_PREVIEW := Some True\<rparr> else props0)
              \<lparr>props_STATIC_PROPS_ID := Some True\<rparr>)
           (initial_metadata env m) data)"
    and "\<And>r. Q1 (Return r) \<Longrightarrow> Q (Return r)"
    and "\<And>p md. Q1 (Continue p md) \<Longrightarrow>
           returns Q (server_side_props_block env m request rc rl p md)"
  shows "returns Q (fetch_page_props env m request rc rl)"
  unfolding fetch_page_props_def
proof (rule returns_bind_with[OF load_app_props_returns])
  fix x
  assume "\<exists>sent. env_loadAppInitialProps env (pm_App m) (default_export (pm_userland m))
                    (rl_router rl) (rl_ctx rl) = (Inr x, sent)"
  with assms(4) have x: "x = props0" by simp
  have gsp: "has_getStaticProps m" using assms(1) by (simp add: has_getStaticProps_def is_function_def)
  have "returns Q1 (static_props_block env m request rc rl
          (if rl_isPreview rl then props0\<lparr>props_N_PREVIEW := Some True\<rparr> else props0)
          (initial_metadata env m))"
    by (rule static_props_block_known[OF assms(1,2,3)]) (rule assms(5))
  then have "returns Q
     (run_bind (static_props_block env m request rc rl
          (if rl_isPreview rl then props0\<lparr>props_N_PREVIEW := Some True\<rparr> else props0)
          (initial_metadata env m))
           (\<lambda>step1. case step1 of Return r \<Rightarrow> run_ok (Return r)
                     | Continue p2 md2 \<Rightarrow> server_side_props_block env m request rc rl p2 md2))"
    by (rule returns_bind_with) (auto split: fetch_step.splits intro: assms(6,7))
  with x gsp show "returns Q
     (let p1 = if (has_getStaticProps m \<or> has_getServerSideProps m) \<and> rl_isPreview rl
               then x\<lparr>props_N_PREVIEW := Some True\<rparr> else x
      in run_bind (static_props_block env m request rc rl p1 (initial_metadata env m))
           (\<lambda>step1. case step1 of Return r \<Rightarrow> run_ok (Return r)
                     | Continue p2 md2 \<Rightarrow> server_side_props_block env m request rc rl p2 md2))"
    by (cases "rl_isPreview rl") (simp_all add: Let_def)
qed

lemma server_side_props_block_absent:
  assumes "getServerSideProps (pm_userland m) = None"
  shows "server_side_props_block env m request rc rl p md = run_ok (Continue p md)"
  using assms by (simp add: server_side_props_block_def)

lemma static_props_block_absent:
  assumes "getStaticProps (pm_userland m) = None"
  shows "static_props_block env m request rc rl p md = run_ok (Continue p md)"
  using assms by (simp add: static_props_block_def)

lemma renderDocument_returns: "returns (\<lambda>_. True) (renderDocument env m rl p)"
  by (simp add: returns_def)

lemma assemble_document_metadata:
  "returns (\<lambda>r. rr_metadata r = md) (assemble_document env m rc rl p md)"
  unfolding assemble_document_def
  by (intro returns_intros) simp_all

lemma finish_render_metadata:
  "returns (\<lambda>r. rr_metadata r = md) (finish_render env m rc rl p md)"
  unfolding finish_render_def
  by (intro returns_intros assemble_document_metadata) simp_all

lemma render_returns:
  assumes "returns Q1 (fetch_page_props env m request rc (render_locals_of env m request rc))"
    and "\<And>r. Q1 (Return r) \<Longrightarrow> Q r"
    and "\<And>p md. Q1 (Continue p md) \<Longrightarrow>
           returns Q (finish_render env m rc (render_locals_of env m request rc) p md)"
  shows "returns Q (render env m request rc)"
  unfolding render_def Let_def
  by (rule returns_bind_with[OF assms(1)]) (auto split: fetch_step.splits intro: assms(2,3))

text \<open>
  Claim C2 says that on a fallback render the user's \<open>getStaticProps\<close> is not called
  and the page props are empty. \<open>render\<close> states the same intent in a comment, "We
  don't call getStaticProps or getServerSideProps while generating the fallback so make
  sure to set pageProps to an empty object", but the statement under it,
  \<open>if (isFallback) props.pageProps = {}\<close>, is commented out. So the first half holds
  and the second does not: with a custom App whose \<open>getInitialProps\<close> supplies
  \<open>{x: 1}\<close>, the fallback render of a dynamic page with \<open>getStaticProps\<close> makes no
  call of \<open>getStaticProps\<close>, and its one hydration payload (\<open>isFallback\<close> true,
  \<open>appGip\<close> true) carries the page props \<open>{x: 1}\<close>, not \<open>{}\<close>.
\<close>

theorem fallback_render_keeps_app_page_props:
  "list_all (\<lambda>ev. \<not> is_GetStaticPropsCalled ev)
     (events_of
        (render (example_env True custom_app_props)
           (with_custom_App (example_module ''/post/[id]'' (Some id_props) None None))
           (example_request ''/post/1'' node_request)
           (example_render_context ''/post/[id]'' [(''__nextFallback'', JStr ''true'')] None))
        initial_world)
   \<and> map (\<lambda>nd. (nd_isFallback nd, nd_appGip nd, props_pageProps (nd_props nd)))
     (rendered_payloads (events_of
        (render (example_env True custom_app_props)
           (with_custom_App (example_module ''/post/[id]'' (Some id_props) None None))
           (example_request ''/post/1'' node_request)
           (example_render_context ''/post/[id]'' [(''__nextFallback'', JStr ''true'')] None))
        initial_world))
   = [(True, Some True, Some (JObj [(''x'', JNum 1)]))]"
  by code_simp

text \<open>The fallback render of the dynamic example page under the default App: no call of
  \<open>getStaticProps\<close>, and the empty page props of the App in the payload.\<close>

theorem fallback_render_skips_getStaticProps_witness:
  "truthy (get_key (ctx_query (hc_renderOpts (rc_context
       (example_render_context ''/post/[id]'' [(''__nextFallback'', JStr ''true'')] None))))
     ''__nextFallback'')
   \<and> has_getStaticProps (example_module ''/post/[id]'' (Some id_props) None None)
   \<and> list_all (\<lambda>ev. \<not> is_GetStaticPropsCalled ev)
        (events_of
          (render (example_env True default_app_props)
             (example_module ''/post/[id]'' (Some id_props) None None)
             (example_request ''/post/1'' node_request)
             (example_render_context ''/post/[id]'' [(''__nextFallback'', JStr ''true'')] None))
          initial_world)
   \<and> list_all (\<lambda>nd. props_pageProps (nd_props nd) = Some (JObj []))
        (rendered_payloads (events_of
          (render (example_env True default_app_props)
             (example_module ''/post/[id]'' (Some id_props) None None)
             (example_request ''/post/1'' node_request)
             (example_render_context ''/post/[id]'' [(''__nextFallback'', JStr ''true'')] None))
          initial_world))"
proof -
  let ?rc = "example_render_context ''/post/[id]'' [(''__nextFallback'', JStr ''true'')] None"
  let ?m = "example_module ''/post/[id]'' (Some id_props) None None"
  let ?env = "example_env True default_app_props"
  let ?request = "example_request ''/post/1'' node_request"
  have h1: "truthy (get_key (ctx_query (hc_renderOpts (rc_context ?rc))) ''__nextFallback'')"
    by code_simp
  have h2: "has_getStaticProps ?m" by code_simp
  have app: "env_loadAppInitialProps ?env (pm_App ?m) (default_export (pm_userland ?m))
              (rl_router (render_locals_of ?env ?m ?request ?rc))
              (rl_ctx (render_locals_of ?env ?m ?request ?rc)) = (Inr default_app_props, False)"
    by (simp add: example_env_def)
  have pp: "props_pageProps default_app_props = Some (JObj [])"
    by (simp add: default_app_props_def app_props_def)
  note main = fallback_render_skips_getStaticProps[OF h1 h2, of ?env ?request initial_world]
  from main have quiet: "list_all (\<lambda>ev. \<not> is_GetStaticPropsCalled ev)
        (events_of (render ?env ?m ?request ?rc) initial_world)" by (rule conjunct1)
  from main app have "list_all (\<lambda>nd. props_pageProps (nd_props nd) = props_pageProps default_app_props)
        (rendered_payloads (events_of (render ?env ?m ?request ?rc) initial_world))" by blast
  with pp have "list_all (\<lambda>nd. props_pageProps (nd_props nd) = Some (JObj []))
        (rendered_payloads (events_of (render ?env ?m ?request ?rc) initial_world))" by simp
  with h1 h2 quiet show ?thesis by blast
qed

text \<open>
  Claim C3 says that every data request of a page with \<open>getServerSideProps\<close> returns
  the serialized props. When \<open>getServerSideProps\<close> answers \<open>{notFound: true}\<close>,
  \<open>render\<close> returns at once with a null body, also for a data request.
\<close>

theorem data_request_with_notFound_has_no_body:
  "map_sum id rr_response
     (fst (render (example_env True default_app_props)
        (example_module ''/post'' None (Some (\<lambda>c. (Inr [(''notFound'', JBool True)], False))) None)
        (example_request ''/post'' node_request)
        (example_render_context ''/post'' [] (Some True)) initial_world))
   = Inr None"
  by code_simp

text \<open>
  Claim C3, amended. For a request with \<open>isDataReq = true\<close> on a page that declares
  \<open>getServerSideProps\<close>, no HTML document is assembled, and \<open>render\<close> is the data
  fetching followed by the serialization: it fails where the fetching fails, it returns
  the early result of the fetching, which is always the null body of a page that was not
  found, and otherwise it returns \<open>JSON.stringify\<close> of the props object with the
  metadata of the fetching.
\<close>

theorem data_request_returns_serialized_props:
  assumes "ctx_isDataReq (hc_renderOpts (rc_context rc)) = Some True"
    and "has_getServerSideProps m"
  shows "render env m request rc w =
           (case fetch_page_props env m request rc (render_locals_of env m request rc) w of
              (Inl e, w') \<Rightarrow> (Inl e, w')
            | (Inr (Return r), w') \<Rightarrow> (Inr r, w')
            | (Inr (Continue p md), w') \<Rightarrow>
                (Inr \<lparr>rr_response = Some (env_JSON_stringify env p), rr_metadata = md\<rparr>, w'))
       \<and> (\<forall>r w'. fetch_page_props env m request rc (render_locals_of env m request rc) w
                    = (Inr (Return r), w') \<longrightarrow> not_found_result r)
       \<and> list_all (\<lambda>ev. \<not> is_document_event ev) (events_of (render env m request rc) w)"
proof (intro conjI allI impI)
  show "render env m request rc w =
           (case fetch_page_props env m request rc (render_locals_of env m request rc) w of
              (Inl e, w') \<Rightarrow> (Inl e, w')
            | (Inr (Return r), w') \<Rightarrow> (Inr r, w')
            | (Inr (Continue p md), w') \<Rightarrow>
                (Inr \<lparr>rr_response = Some (env_JSON_stringify env p), rr_metadata = md\<rparr>, w'))"
    by (cases "fetch_page_props env m request rc (render_locals_of env m request rc) w")
       (simp add: render_def Let_def run_bind_def finish_render_data_request[OF assms] run_ok_def
             split: sum.splits fetch_step.splits)
next
  fix r w'
  assume "fetch_page_props env m request rc (render_locals_of env m request rc) w
            = (Inr (Return r), w')"
  then have "fst (fetch_page_props env m request rc (render_locals_of env m request rc) w)
            = Inr (Return r)" by simp
  from returnsD[OF fetch_page_props_Return this] show "not_found_result r" by simp
next
  have "only_emits (\<lambda>ev. \<not> is_document_event ev) (render env m request rc)"
    unfolding render_def Let_def
    by (intro emits_intros fetch_page_props_only_data_events)
       (simp_all add: finish_render_data_request[OF assms])
  then show "list_all (\<lambda>ev. \<not> is_document_event ev) (events_of (render env m request rc) w)"
    by (rule only_emits_events_of)
qed

text \<open>A data request whose \<open>getServerSideProps\<close> resolves to
  \<open>{props: {id: "1"}}\<close>: the body is the serialization of the props, and no document
  event is logged.\<close>

theorem data_request_returns_serialized_props_witness:
  "ctx_isDataReq (hc_renderOpts (rc_context (example_render_context ''/post'' [] (Some True))))
     = Some True
   \<and> has_getServerSideProps
       (example_module ''/post'' None
          (Some (\<lambda>c. (Inr [(''props'', JObj [(''id'', JStr ''1'')])], False))) None)
   \<and> list_all (\<lambda>ev. \<not> is_document_event ev)
       (events_of (render (example_env True default_app_props)
          (example_module ''/post'' None
             (Some (\<lambda>c. (Inr [(''props'', JObj [(''id'', JStr ''1'')])], False))) None)
          (example_request ''/post'' node_request)
          (example_render_context ''/post'' [] (Some True))) initial_world)
   \<and> map_sum id rr_response
       (fst (render (example_env True default_app_props)
          (example_module ''/post'' None
             (Some (\<lambda>c. (Inr [(''props'', JObj [(''id'', JStr ''1'')])], False))) None)
          (example_request ''/post'' node_request)
          (example_render_context ''/post'' [] (Some True)) initial_world))
     = Inr (Some ''pageProps:id'')"
proof -
  let ?rc = "example_render_context ''/post'' [] (Some True)"
  let ?m = "example_module ''/post'' None
             (Some (\<lambda>c. (Inr [(''props'', JObj [(''id'', JStr ''1'')])], False))) None"
  have h1: "ctx_isDataReq (hc_renderOpts (rc_context ?rc)) = Some True" by code_simp
  have h2: "has_getServerSideProps ?m" by code_simp
  have body: "map_sum id rr_response
       (fst (render (example_env True default_app_props) ?m
          (example_request ''/post'' node_request) ?rc initial_world))
     = Inr (Some ''pageProps:id'')" by code_simp
  from data_request_returns_serialized_props[OF h1 h2,
      of "example_env True default_app_props" "example_request ''/post'' node_request"
         initial_world]
  have "list_all (\<lambda>ev. \<not> is_document_event ev)
       (events_of (render (example_env True default_app_props) ?m
          (example_request ''/post'' node_request) ?rc) initial_world)" by blast
  with h1 h2 body show ?thesis by blast
qed

section \<open>The round trip of static props into the hydration payload\<close>

lemma static_props_result_id_props:
  "returns (\<lambda>step. \<forall>p' md'. step = Continue p' md' \<longrightarrow>
              props_pageProps p' =
                Some (Object_assign (pageProps_or_undefined p) (JObj [(''id'', JStr ''1'')])))
     (static_props_result env m request rc rl p md [(''props'', JObj [(''id'', JStr ''1'')])])"
  apply (simp add: static_props_result_def notFound_step_def static_redirect_step_def
           revalidate_step_def merge_static_props_def has_key_def get_key_def Let_def
         split del: if_split)
  apply (intro returns_intros)
  apply (simp_all add: flag_set_def get_key_def)
  done

text \<open>
  Claim C4 says that the payload's \<open>props.pageProps\<close> equals \<open>{id: "1"}\<close>.
  \<open>render\<close> merges the props of \<open>getStaticProps\<close> into the page props that the
  App's initial props already hold: with an App that supplies \<open>{x: 1}\<close> the payload
  carries \<open>{x: 1, id: "1"}\<close>.
\<close>

theorem payload_merges_app_page_props:
  "map (\<lambda>nd. props_pageProps (nd_props nd))
     (rendered_payloads (events_of
        (render (example_env True custom_app_props)
           (example_module ''/post'' (Some id_props) None None)
           (example_request ''/post'' node_request)
           (example_render_context ''/post'' [(''id'', JStr ''1'')] None))
        initial_world))
   = [Some (JObj [(''x'', JNum 1), (''id'', JStr ''1'')])]"
  by code_simp

text \<open>
  Claim C4, amended. For a render with \<open>query = {id: "1"}\<close> where the page's
  \<open>getStaticProps\<close> returns \<open>{props: {id: "1"}}\<close> (and the page has no
  \<open>getServerSideProps\<close>), every hydration payload that \<open>render\<close> embeds has
  \<open>query\<close> equal to \<open>{id: "1"}\<close> and \<open>props.pageProps\<close> equal to
  \<open>Object.assign({}, pageProps of the App's initial props, {id: "1"})\<close>, which is
  \<open>{id: "1"}\<close> when the App supplies no page props or empty ones.
\<close>

theorem hydration_payload_round_trip:
  assumes "ctx_query (hc_renderOpts (rc_context rc)) = [(''id'', JStr ''1'')]"
    and "getStaticProps (pm_userland m) = Some f"
    and "getServerSideProps (pm_userland m) = None"
    and "f (getStaticProps_context m rc (render_locals_of env m request rc))
           = Inr [(''props'', JObj [(''id'', JStr ''1'')])]"
    and "env_loadAppInitialProps env (pm_App m) (default_export (pm_userland m))
           (rl_router (render_locals_of env m request rc))
           (rl_ctx (render_locals_of env m request rc)) = (Inr props0, sent)"
  shows "list_all (\<lambda>nd. props_pageProps (nd_props nd)
                         = Some (Object_assign (pageProps_or_undefined props0)
                                   (JObj [(''id'', JStr ''1'')]))
                       \<and> nd_query nd = [(''id'', JStr ''1'')])
           (rendered_payloads (events_of (render env m request rc) w))
       \<and> (props_pageProps props0 = None \<or> props_pageProps props0 = Some (JObj []) \<longrightarrow>
            Object_assign (pageProps_or_undefined props0) (JObj [(''id'', JStr ''1'')])
              = JObj [(''id'', JStr ''1'')])"
proof
  let ?rl = "render_locals_of env m request rc"
  let ?Q = "\<lambda>p. props_pageProps p
               = Some (Object_assign (pageProps_or_undefined props0) (JObj [(''id'', JStr ''1'')]))"
  have nofb: "\<not> rl_isFallback ?rl" using assms(1) by (simp add: get_key_def)
  have gsp: "has_getStaticProps m"
    using assms(2) by (simp add: has_getStaticProps_def is_function_def)
  have q: "rl_query ?rl = [(''id'', JStr ''1'')]"
    using rl_query_of_static[of m rc env request] gsp assms(1) by (simp add: get_key_def)
  have "returns (\<lambda>step. \<forall>p md. step = Continue p md \<longrightarrow> ?Q p)
          (fetch_page_props env m request rc ?rl)"
  proof (rule fetch_page_props_static_known[OF assms(2) nofb assms(4) assms(5)])
    show "returns (\<lambda>step. \<forall>p' md'. step = Continue p' md' \<longrightarrow> ?Q p')
       (static_props_result env m request rc ?rl
         ((if rl_isPreview ?rl then props0\<lparr>props_N_PREVIEW := Some True\<rparr> else props0)
          \<lparr>props_STATIC_PROPS_ID := Some True\<rparr>)
         (initial_metadata env m) [(''props'', JObj [(''id'', JStr ''1'')])])"
      by (rule returns_weaken[OF static_props_result_id_props])
         (simp add: pageProps_or_undefined_def)
  qed (simp_all add: server_side_props_block_absent[OF assms(3)])
  from render_payloads[OF this, of w] q
  show "list_all (\<lambda>nd. props_pageProps (nd_props nd)
                         = Some (Object_assign (pageProps_or_undefined props0)
                                   (JObj [(''id'', JStr ''1'')]))
                       \<and> nd_query nd = [(''id'', JStr ''1'')])
           (rendered_payloads (events_of (render env m request rc) w))" by simp
next
  show "props_pageProps props0 = None \<or> props_pageProps props0 = Some (JObj []) \<longrightarrow>
            Object_assign (pageProps_or_undefined props0) (JObj [(''id'', JStr ''1'')])
              = JObj [(''id'', JStr ''1'')]"
    by (auto simp: pageProps_or_undefined_def Object_assign_def assign_into_def
          property_order_def is_array_index_def)
qed

text \<open>The round trip under the default App: one payload, with page props
  \<open>{id: "1"}\<close> and query \<open>{id: "1"}\<close>.\<close>

theorem hydration_payload_round_trip_witness:
  "ctx_query (hc_renderOpts (rc_context (example_render_context ''/post'' [(''id'', JStr ''1'')] None)))
     = [(''id'', JStr ''1'')]
   \<and> getServerSideProps (pm_userland (example_module ''/post'' (Some id_props) None None)) = None
   \<and> list_all (\<lambda>nd. props_pageProps (nd_props nd) = Some (JObj [(''id'', JStr ''1'')])
                    \<and> nd_query nd = [(''id'', JStr ''1'')])
       (rendered_payloads (events_of
          (render (example_env True default_app_props)
             (example_module ''/post'' (Some id_props) None None)
             (example_request ''/post'' node_request)
             (example_render_context ''/post'' [(''id'', JStr ''1'')] None))
          initial_world))
   \<and> length (rendered_payloads (events_of
          (render (example_env True default_app_props)
             (example_module ''/post'' (Some id_props) None None)
             (example_request ''/post'' node_request)
             (example_render_context ''/post'' [(''id'', JStr ''1'')] None))
          initial_world)) = 1"
proof -
  let ?rc = "example_render_context ''/post'' [(''id'', JStr ''1'')] None"
  let ?m = "example_module ''/post'' (Some id_props) None None"
  let ?env = "example_env True default_app_props"
  let ?request = "example_request ''/post'' node_request"
  have h1: "ctx_query (hc_renderOpts (rc_context ?rc)) = [(''id'', JStr ''1'')]"
    by (simp add: example_render_context_def example_context_def)
  have h2: "getStaticProps (pm_userland ?m) = Some id_props"
    by (simp add: example_module_def example_options_def new_PagesRouteModule_def)
  have h3: "getServerSideProps (pm_userland ?m) = None"
    by (simp add: example_module_def example_options_def new_PagesRouteModule_def)
  have h4: "id_props (getStaticProps_context ?m ?rc (render_locals_of ?env ?m ?request ?rc))
           = Inr [(''props'', JObj [(''id'', JStr ''1'')])]"
    by (simp add: id_props_def)
  have h5: "env_loadAppInitialProps ?env (pm_App ?m) (default_export (pm_userland ?m))
           (rl_router (render_locals_of ?env ?m ?request ?rc))
           (rl_ctx (render_locals_of ?env ?m ?request ?rc)) = (Inr default_app_props, False)"
    by (simp add: example_env_def)
  have pp: "props_pageProps default_app_props = Some (JObj [])"
    by (simp add: default_app_props_def app_props_def)
  have one: "length (rendered_payloads (events_of (render ?env ?m ?request ?rc) initial_world)) = 1"
    by code_simp
  note main = hydration_payload_round_trip[OF h1 h2 h3 h4 h5, where w = initial_world]
  from main pp have eq: "Object_assign (pageProps_or_undefined default_app_props)
      (JObj [(''id'', JStr ''1'')]) = JObj [(''id'', JStr ''1'')]" by blast
  from main have "list_all (\<lambda>nd. props_pageProps (nd_props nd)
                         = Some (Object_assign (pageProps_or_undefined default_app_props)
                                   (JObj [(''id'', JStr ''1'')]))
                       \<and> nd_query nd = [(''id'', JStr ''1'')])
           (rendered_payloads (events_of (render ?env ?m ?request ?rc) initial_world))"
    by (rule conjunct1)
  with eq have "list_all (\<lambda>nd. props_pageProps (nd_props nd) = Some (JObj [(''id'', JStr ''1'')])
                    \<and> nd_query nd = [(''id'', JStr ''1'')])
           (rendered_payloads (events_of (render ?env ?m ?request ?rc) initial_world))"
    by simp
  with h1 h3 one show ?thesis by blast
qed

section \<open>Failures of the data-fetching blocks\<close>

lemma render_fetch_error:
  assumes "fst (fetch_page_props env m request rc (render_locals_of env m request rc) w) = Inl e"
  shows "fst (render env m request rc w) = Inl e"
  using assms by (simp add: render_def Let_def run_bind_apply)


lemma fetch_page_props_static_outcome:
  assumes "env_loadAppInitialProps env (pm_App m) (default_export (pm_userland m))
             (rl_router rl) (rl_ctx rl) = (Inr props0, sent)"
    and "getStaticProps (pm_userland m) = Some f"
    and "\<And>w1. fst (static_props_block env m request rc rl
                  (if rl_isPreview rl then props0\<lparr>props_N_PREVIEW := Some True\<rparr> else props0)
                  (initial_metadata env m) w1) = out"
    and "out = Inl e \<or> out = Inr (Return r)"
  shows "fst (fetch_page_props env m request rc rl w) = out"
proof -
  have gsp: "has_getStaticProps m"
    using assms(2) by (simp add: has_getStaticProps_def is_function_def)
  have l: "fst (load_app_props env m rl w) = Inr props0"
    by (rule load_app_props_apply[OF assms(1)])
  from assms(4) show ?thesis
    by (auto simp: fetch_page_props_def l Let_def gsp run_apply assms(3))
qed

lemma fetch_page_props_server_outcome:
  assumes "env_loadAppInitialProps env (pm_App m) (default_export (pm_userland m))
             (rl_router rl) (rl_ctx rl) = (Inr props0, sent)"
    and "getStaticProps (pm_userland m) = None"
    and "getServerSideProps (pm_userland m) = Some g"
    and "\<And>w1. fst (server_side_props_block env m request rc rl
                  (if rl_isPreview rl then props0\<lparr>props_N_PREVIEW := Some True\<rparr> else props0)
                  (initial_metadata env m) w1) = out"
  shows "fst (fetch_page_props env m request rc rl w) = out"
proof -
  have gssp: "has_getServerSideProps m"
    using assms(3) by (simp add: has_getServerSideProps_def is_function_def)
  have l: "fst (load_app_props env m rl w) = Inr props0"
    by (rule load_app_props_apply[OF assms(1)])
  show ?thesis
    by (simp add: fetch_page_props_def run_bind_Inr[of "load_app_props env m rl" w props0, OF l] Let_def gssp
          static_props_block_absent[OF assms(2)] assms(4))
qed

lemma static_props_block_throws:
  assumes "getStaticProps (pm_userland m) = Some f" "\<not> rl_isFallback rl"
    and "f (getStaticProps_context m rc rl) = Inl err"
  shows "fst (static_props_block env m request rc rl p md w)
           = Inl (Thrown (strip_not_found_code env err))"
  using assms by (simp add: static_props_block_def call_getStaticProps_def Let_def run_apply)

lemma static_props_block_resolved:
  assumes "getStaticProps (pm_userland m) = Some f" "\<not> rl_isFallback rl"
    and "f (getStaticProps_context m rc rl) = Inr data"
  shows "fst (static_props_block env m request rc rl p md w)
           = fst (static_props_result env m request rc rl
                    (p\<lparr>props_STATIC_PROPS_ID := Some True\<rparr>) md data
                    (w\<lparr>trace := trace w @ [GetStaticPropsCalled (getStaticProps_context m rc rl)]\<rparr>))"
  using assms by (simp add: static_props_block_def call_getStaticProps_def Let_def run_apply)

lemma server_side_props_block_throws:
  assumes "getServerSideProps (pm_userland m) = Some g" "\<not> rl_isFallback rl"
    and "fst (g (getServerSideProps_context m request rc rl)) = Inl err"
  shows "fst (server_side_props_block env m request rc rl p md w)
           = Inl (Thrown (strip_not_found_code env err))"
  using assms
  by (cases "g (getServerSideProps_context m request rc rl)")
     (simp add: server_side_props_block_def call_getServerSideProps_def Let_def run_apply)


lemma strip_not_found_code_rethrown:
  assumes "env_isError env err"
  shows "strip_not_found_code env err = rethrown_error err"
  using assms by (cases err) (simp_all add: strip_not_found_code_def rethrown_error_def)

text \<open>
  Claim C8. When the user's \<open>getStaticProps\<close> or \<open>getServerSideProps\<close> throws an
  error \<open>err\<close> (a value that \<open>isError\<close> accepts), \<open>render\<close> fails with
  \<open>rethrown_error err\<close>: \<open>err\<close> itself, except that a \<open>code\<close> equal to
  \<open>'ENOENT'\<close> is deleted from it. The function is called once the App's initial
  props are loaded, on a request that is not a fallback render; the server-side function
  is reached when the page has no \<open>getStaticProps\<close>.
\<close>

theorem user_function_errors_are_rethrown:
  assumes "env_loadAppInitialProps env (pm_App m) (default_export (pm_userland m))
             (rl_router (render_locals_of env m request rc))
             (rl_ctx (render_locals_of env m request rc)) = (Inr props0, sent)"
    and "\<not> truthy (get_key (ctx_query (hc_renderOpts (rc_context rc))) ''__nextFallback'')"
    and "env_isError env err"
  shows "(getStaticProps (pm_userland m) = Some f \<and>
          f (getStaticProps_context m rc (render_locals_of env m request rc)) = Inl err \<longrightarrow>
            fst (render env m request rc w) = Inl (Thrown (rethrown_error err)))
       \<and> (getStaticProps (pm_userland m) = None \<and>
          getServerSideProps (pm_userland m) = Some g \<and>
          fst (g (getServerSideProps_context m request rc (render_locals_of env m request rc)))
            = Inl err \<longrightarrow>
            fst (render env m request rc w) = Inl (Thrown (rethrown_error err)))
       \<and> (get_key kvs ''code'' = JStr ''ENOENT'' \<longrightarrow>
            rethrown_error (JObj kvs) = JObj (delete_key ''code'' kvs))
       \<and> (get_key kvs ''code'' \<noteq> JStr ''ENOENT'' \<longrightarrow> rethrown_error (JObj kvs) = JObj kvs)
       \<and> ((\<forall>obj. err \<noteq> JObj obj) \<longrightarrow> rethrown_error err = err)"
proof (intro conjI impI)
  let ?rl = "render_locals_of env m request rc"
  have nofb: "\<not> rl_isFallback ?rl" using assms(2) by simp
  {
    assume a: "getStaticProps (pm_userland m) = Some f \<and>
          f (getStaticProps_context m rc ?rl) = Inl err"
    have "fst (fetch_page_props env m request rc ?rl w)
            = Inl (Thrown (strip_not_found_code env err))"
      by (rule fetch_page_props_static_outcome[OF assms(1) conjunct1[OF a]])
         (simp_all add: static_props_block_throws[OF conjunct1[OF a] nofb conjunct2[OF a]])
    then show "fst (render env m request rc w) = Inl (Thrown (rethrown_error err))"
      by (simp add: render_fetch_error strip_not_found_code_rethrown[OF assms(3)])
  }
  {
    assume a: "getStaticProps (pm_userland m) = None \<and>
          getServerSideProps (pm_userland m) = Some g \<and>
          fst (g (getServerSideProps_context m request rc ?rl)) = Inl err"
    have "fst (fetch_page_props env m request rc ?rl w)
            = Inl (Thrown (strip_not_found_code env err))"
      by (rule fetch_page_props_server_outcome[OF assms(1)])
         (use a in \<open>simp_all add: server_side_props_block_throws[OF _ nofb]\<close>)
    then show "fst (render env m request rc w) = Inl (Thrown (rethrown_error err))"
      by (simp add: render_fetch_error strip_not_found_code_rethrown[OF assms(3)])
  }
  show "get_key kvs ''code'' = JStr ''ENOENT'' \<Longrightarrow>
          rethrown_error (JObj kvs) = JObj (delete_key ''code'' kvs)"
    by (simp add: rethrown_error_def)
  show "get_key kvs ''code'' \<noteq> JStr ''ENOENT'' \<Longrightarrow> rethrown_error (JObj kvs) = JObj kvs"
    by (simp add: rethrown_error_def)
  show "\<forall>obj. err \<noteq> JObj obj \<Longrightarrow> rethrown_error err = err"
    by (cases err) (simp_all add: rethrown_error_def)
qed

text \<open>A \<open>getStaticProps\<close> that throws an error with code \<open>ENOENT\<close>: the caller
  gets the error without the code.\<close>

theorem user_function_errors_are_rethrown_witness:
  "env_isError (example_env True default_app_props) enoent_error
   \<and> fst (render (example_env True default_app_props)
            (example_module ''/post'' (Some (\<lambda>c. Inl enoent_error)) None None)
            (example_request ''/post'' node_request)
            (example_render_context ''/post'' [] None) initial_world)
       = Inl (Thrown (JObj [(''name'', JStr ''Error''), (''message'', JStr ''no such file'')]))"
proof -
  let ?rc = "example_render_context ''/post'' [] None"
  let ?m = "example_module ''/post'' (Some (\<lambda>c. Inl enoent_error)) None None"
  let ?env = "example_env True default_app_props"
  let ?request = "example_request ''/post'' node_request"
  have h1: "env_loadAppInitialProps ?env (pm_App ?m) (default_export (pm_userland ?m))
           (rl_router (render_locals_of ?env ?m ?request ?rc))
           (rl_ctx (render_locals_of ?env ?m ?request ?rc)) = (Inr default_app_props, False)"
    by (simp add: example_env_def)
  have h2: "\<not> truthy (get_key (ctx_query (hc_renderOpts (rc_context ?rc))) ''__nextFallback'')"
    by code_simp
  have h3: "env_isError ?env enoent_error" by code_simp
  have h4: "getStaticProps (pm_userland ?m) = Some (\<lambda>c. Inl enoent_error)"
    by (simp add: example_module_def example_options_def new_PagesRouteModule_def)
  have r: "rethrown_error enoent_error
             = JObj [(''name'', JStr ''Error''), (''message'', JStr ''no such file'')]"
    by code_simp
  from user_function_errors_are_rethrown[OF h1 h2 h3,
      where f = "\<lambda>c. Inl enoent_error" and w = initial_world] h4
  have "fst (render ?env ?m ?request ?rc initial_world) = Inl (Thrown (rethrown_error enoent_error))"
    by blast
  with r h3 show ?thesis by simp
qed

section \<open>Conflicting keys in the result of \<open>getStaticProps\<close>\<close>

lemma fetch_page_props_static_any:
  assumes "getStaticProps (pm_userland m) = Some f" "\<not> rl_isFallback rl"
    and "f (getStaticProps_context m rc rl) = Inr data"
    and "\<And>p md. returns Q1 (static_props_result env m request rc rl p md data)"
    and "\<And>r. Q1 (Return r) \<Longrightarrow> Q (Return r)"
    and "\<And>p md. Q1 (Continue p md) \<Longrightarrow>
           returns Q (server_side_props_block env m request rc rl p md)"
  shows "returns Q (fetch_page_props env m request rc rl)"
  unfolding fetch_page_props_def Let_def
proof (rule returns_bind)
  fix x :: props
  let ?p1 = "if (has_getStaticProps m \<or> has_getServerSideProps m) \<and> rl_isPreview rl
               then x\<lparr>props_N_PREVIEW := Some True\<rparr> else x"
  have "returns Q1 (static_props_block env m request rc rl ?p1 (initial_metadata env m))"
    by (rule static_props_block_known[OF assms(1,2,3)]) (rule assms(4))
  then show "returns Q
     (run_bind (static_props_block env m request rc rl ?p1 (initial_metadata env m))
        (\<lambda>step1. case step1 of Return r \<Rightarrow> run_ok (Return r)
                  | Continue p2 md2 \<Rightarrow> server_side_props_block env m request rc rl p2 md2))"
    by (rule returns_bind_with) (auto split: fetch_step.splits intro: assms(5,6))
qed

lemma render_never_returns:
  assumes "returns (\<lambda>_. False) (fetch_page_props env m request rc (render_locals_of env m request rc))"
  shows "isl (fst (render env m request rc w))"
  by (rule returns_never) (rule render_returns[OF assms], simp_all)

lemma static_props_result_mixed:
  assumes "\<not> env_production env" "has_key ''notFound'' data" "has_key ''redirect'' data"
  shows "returns (\<lambda>_. False) (static_props_result env m request rc rl p md data)"
  using assms by (simp add: static_props_result_def Let_def returns_bind)

lemma static_props_result_mixed_error:
  assumes "\<not> env_production env" "has_key ''notFound'' data" "has_key ''redirect'' data"
    and "env_validateGetStaticProps env data = None"
  shows "fst (static_props_result env m request rc rl p md data w)
           = Inl (MixedNotFoundRedirect (rl_pathname rl))"
  using assms by (simp add: static_props_result_def Let_def run_apply)

text \<open>
  Claim C5 says that every result of \<open>getStaticProps\<close> with both a \<open>redirect\<close> and a
  \<open>notFound\<close> key fails the request. The check is made only when \<open>NODE_ENV\<close> is
  not \<open>production\<close>: in production the render of such a result returns.
\<close>

theorem mixed_notFound_redirect_passes_in_production:
  "\<not> isl (fst (render (example_env True default_app_props)
                (example_module ''/post'' (Some not_found_and_redirect) None None)
                (example_request ''/post'' node_request)
                (example_render_context ''/post'' [] None) initial_world))"
  by code_simp

text \<open>
  Claim C5, amended. When \<open>NODE_ENV\<close> is not \<open>production\<close>, every result of
  \<open>getStaticProps\<close> that contains both a \<open>redirect\<close> key and a \<open>notFound\<close> key
  fails the request; the error is the configuration error about the two keys once the
  App's initial props are loaded and \<open>validateGetStaticProps\<close> has accepted the
  result.
\<close>

theorem mixed_notFound_redirect_fails_outside_production:
  assumes "\<not> env_production env"
    and "getStaticProps (pm_userland m) = Some f"
    and "\<not> truthy (get_key (ctx_query (hc_renderOpts (rc_context rc))) ''__nextFallback'')"
    and "f (getStaticProps_context m rc (render_locals_of env m request rc)) = Inr data"
    and "has_key ''notFound'' data" and "has_key ''redirect'' data"
  shows "isl (fst (render env m request rc w))
       \<and> (\<forall>props0 sent.
            env_loadAppInitialProps env (pm_App m) (default_export (pm_userland m))
              (rl_router (render_locals_of env m request rc))
              (rl_ctx (render_locals_of env m request rc)) = (Inr props0, sent) \<and>
            env_validateGetStaticProps env data = None \<longrightarrow>
            fst (render env m request rc w) = Inl (MixedNotFoundRedirect (req_pathname request)))"
proof (intro conjI allI impI)
  let ?rl = "render_locals_of env m request rc"
  have nofb: "\<not> rl_isFallback ?rl" using assms(3) by simp
  have "returns (\<lambda>_. False) (fetch_page_props env m request rc ?rl)"
    by (rule fetch_page_props_static_any[OF assms(2) nofb assms(4),
          where ?Q1.0 = "\<lambda>_. False"])
       (simp_all add: static_props_result_mixed[OF assms(1,5,6)])
  then show "isl (fst (render env m request rc w))" by (rule render_never_returns)
next
  let ?rl = "render_locals_of env m request rc"
  fix props0 sent
  assume a: "env_loadAppInitialProps env (pm_App m) (default_export (pm_userland m))
              (rl_router ?rl) (rl_ctx ?rl) = (Inr props0, sent) \<and>
            env_validateGetStaticProps env data = None"
  have nofb: "\<not> rl_isFallback ?rl" using assms(3) by simp
  have "fst (fetch_page_props env m request rc ?rl w)
          = Inl (MixedNotFoundRedirect (req_pathname request))"
    by (rule fetch_page_props_static_outcome[OF conjunct1[OF a] assms(2)])
       (simp_all add: static_props_block_resolved[OF assms(2) nofb assms(4)]
          static_props_result_mixed_error[OF assms(1,5,6) conjunct2[OF a]])
  then show "fst (render env m request rc w) = Inl (MixedNotFoundRedirect (req_pathname request))"
    by (rule render_fetch_error)
qed

text \<open>The same result as in production, in development: the request fails with the
  error about the two keys.\<close>

theorem mixed_notFound_redirect_fails_outside_production_witness:
  "\<not> env_production (example_env False default_app_props)
   \<and> has_key ''notFound''
       [(''notFound'', JBool True),
        (''redirect'', JObj [(''destination'', JStr ''/''), (''permanent'', JBool False)])]
   \<and> has_key ''redirect''
       [(''notFound'', JBool True),
        (''redirect'', JObj [(''destination'', JStr ''/''), (''permanent'', JBool False)])]
   \<and> fst (render (example_env False default_app_props)
            (example_module ''/post'' (Some not_found_and_redirect) None None)
            (example_request ''/post'' node_request)
            (example_render_context ''/post'' [] None) initial_world)
       = Inl (MixedNotFoundRedirect ''/post'')"
proof -
  let ?rc = "example_render_context ''/post'' [] None"
  let ?m = "example_module ''/post'' (Some not_found_and_redirect) None None"
  let ?env = "example_env False default_app_props"
  let ?request = "example_request ''/post'' node_request"
  let ?data = "[(''notFound'', JBool True),
        (''redirect'', JObj [(''destination'', JStr ''/''), (''permanent'', JBool False)])]"
  have h1: "\<not> env_production ?env" by code_simp
  have h2: "getStaticProps (pm_userland ?m) = Some not_found_and_redirect"
    by (simp add: example_module_def example_options_def new_PagesRouteModule_def)
  have h3: "\<not> truthy (get_key (ctx_query (hc_renderOpts (rc_context ?rc))) ''__nextFallback'')"
    by code_simp
  have h4: "not_found_and_redirect (getStaticProps_context ?m ?rc (render_locals_of ?env ?m ?request ?rc))
              = Inr ?data"
    by (simp add: not_found_and_redirect_def)
  have h5: "has_key ''notFound'' ?data" by code_simp
  have h6: "has_key ''redirect'' ?data" by code_simp
  have app: "env_loadAppInitialProps ?env (pm_App ?m) (default_export (pm_userland ?m))
           (rl_router (render_locals_of ?env ?m ?request ?rc))
           (rl_ctx (render_locals_of ?env ?m ?request ?rc)) = (Inr default_app_props, False)"
    by (simp add: example_env_def)
  have v: "env_validateGetStaticProps ?env ?data = None"
    by (simp add: example_env_def)
  have p: "req_pathname ?request = ''/post''" by (simp add: example_request_def)
  from mixed_notFound_redirect_fails_outside_production[OF h1 h2 h3 h4 h5 h6,
      where w = initial_world] app v
  have "fst (render ?env ?m ?request ?rc initial_world)
          = Inl (MixedNotFoundRedirect (req_pathname ?request))" by blast
  with p h1 h5 h6 show ?thesis by simp
qed

section \<open>Steps of the data-fetching blocks\<close>


lemma static_redirect_step_returns:
  "returns (\<lambda>(d, md'). (md' = md \<or> md' = md\<lparr>md_isRedirect := Some True\<rparr>) \<and>
                         (d = data \<or> env_checkRedirectValues env data url ''getStaticProps'' = Inr d))
     (static_redirect_step env url export data md)"
  unfolding static_redirect_step_def
  by (cases "env_checkRedirectValues env data url ''getStaticProps''"; cases export) simp_all

lemma server_redirect_step_returns:
  "returns (\<lambda>(d, md'). (md' = md \<or> md' = md\<lparr>md_isRedirect := Some True\<rparr>) \<and>
                         (d = data \<or> env_checkRedirectValues env data url ''getServerSideProps'' = Inr d))
     (server_redirect_step env url data md)"
  unfolding server_redirect_step_def
  by (cases "env_checkRedirectValues env data url ''getServerSideProps''") simp_all

lemma revalidate_step_returns:
  "returns (\<lambda>md3. if has_key ''revalidate'' data
                   then (\<exists>rv. validateRevalidate (get_key data ''revalidate'') url = Inr rv \<and>
                              \<not> (truthy rv \<and> cfg_output (pm_config m) = Some ''export'') \<and>
                              md3 = md\<lparr>md_revalidate := Some rv\<rparr>)
                   else md3 = md)
     (revalidate_step m url data md)"
  unfolding revalidate_step_def
  by (cases "validateRevalidate (get_key data ''revalidate'') url") simp_all

section \<open>Revalidation\<close>

text \<open>The outcome that the validation of \<open>revalidate\<close> allows for the metadata.\<close>

lemma static_props_result_revalidate:
  assumes helper: "\<forall>d url s d'. env_checkRedirectValues env d url s = Inr d' \<longrightarrow>
                     map_of d' ''revalidate'' = map_of d ''revalidate''"
    and key: "has_key ''revalidate'' data0"
  shows "returns (\<lambda>step. \<exists>rv. validateRevalidate (get_key data0 ''revalidate'') (req_url request)
                                 = Inr rv \<and>
                               \<not> (truthy rv \<and> cfg_output (pm_config m) = Some ''export'') \<and>
                               md_revalidate (step_metadata step) = Some rv)
           (static_props_result env m request rc rl p md data0)"
  unfolding static_props_result_def
proof (rule returns_bind, rule returns_bind, rule returns_bind,
       rule returns_bind_with[OF static_redirect_step_returns], clarify)
  fix md1 :: render_result_metadata and d md2
  assume "d = data0 \<or> env_checkRedirectValues env data0 (req_url request) ''getStaticProps'' = Inr d"
  then have same: "map_of d ''revalidate'' = map_of data0 ''revalidate''"
    using helper by blast
  then have k: "has_key ''revalidate'' d"
    and g: "get_key d ''revalidate'' = get_key data0 ''revalidate''"
    using key by (simp_all add: has_key_def get_key_def)
  show "returns (\<lambda>step. \<exists>rv. validateRevalidate (get_key data0 ''revalidate'') (req_url request)
                                 = Inr rv \<and>
                               \<not> (truthy rv \<and> cfg_output (pm_config m) = Some ''export'') \<and>
                               md_revalidate (step_metadata step) = Some rv)
     (run_bind (revalidate_step m (req_url request) d md2)
        (\<lambda>md3. run_bind
                 (serializable_step env (ro_dev (pm_renderOpts m) \<or> hc_export (rc_context rc))
                    (rl_pathname rl) ''getStaticProps'' InvalidStaticProps d)
                 (\<lambda>_. let p1 = merge_static_props p d;
                           md4 = md3\<lparr>md_pageData := Some p1\<rparr>
                       in if flag_set (md_isNotFound md4)
                          then run_ok (Return \<lparr>rr_response = None, rr_metadata = md4\<rparr>)
                          else run_ok (Continue p1 md4))))"
  proof (rule returns_bind_with[OF revalidate_step_returns], rule returns_bind)
    fix md3 u
    assume "if has_key ''revalidate'' d
            then \<exists>rv. validateRevalidate (get_key d ''revalidate'') (req_url request) = Inr rv \<and>
                       \<not> (truthy rv \<and> cfg_output (pm_config m) = Some ''export'') \<and>
                       md3 = md2\<lparr>md_revalidate := Some rv\<rparr>
            else md3 = md2"
    with k g obtain rv where
      "validateRevalidate (get_key data0 ''revalidate'') (req_url request) = Inr rv"
      "\<not> (truthy rv \<and> cfg_output (pm_config m) = Some ''export'')"
      "md3 = md2\<lparr>md_revalidate := Some rv\<rparr>" by auto
    then show "returns (\<lambda>step. \<exists>rv. validateRevalidate (get_key data0 ''revalidate'') (req_url request)
                                 = Inr rv \<and>
                               \<not> (truthy rv \<and> cfg_output (pm_config m) = Some ''export'') \<and>
                               md_revalidate (step_metadata step) = Some rv)
       (let p1 = merge_static_props p d;
            md4 = md3\<lparr>md_pageData := Some p1\<rparr>
        in if flag_set (md_isNotFound md4)
           then run_ok (Return \<lparr>rr_response = None, rr_metadata = md4\<rparr>)
           else run_ok (Continue p1 md4))"
      by (simp add: Let_def step_metadata_def)
  qed
qed

lemma server_side_props_result_keeps_revalidate:
  "returns (\<lambda>step. md_revalidate (step_metadata step) = md_revalidate md)
     (server_side_props_result env m request rc rl p md data)"
  unfolding server_side_props_result_def
proof (rule returns_bind, rule returns_if)
  show "returns (\<lambda>step. md_revalidate (step_metadata step) = md_revalidate md)
     (if rl_pathname rl = ''/404'' then run_throw NotFoundOn404
      else run_ok (Return \<lparr>rr_response = None, rr_metadata = md\<lparr>md_isNotFound := Some True\<rparr>\<rparr>))"
    by (simp add: step_metadata_def)
next
  show "returns (\<lambda>step. md_revalidate (step_metadata step) = md_revalidate md)
     (run_bind (server_redirect_step env (req_url request) data md)
        (\<lambda>(data1, md2). run_bind (await_props data1)
           (\<lambda>data. run_bind
              (serializable_step env (ro_dev (pm_renderOpts m) \<or> hc_export (rc_context rc))
                 (rl_pathname rl) ''getServerSideProps'' InvalidServerSideProps data)
              (\<lambda>_. let p1 = merge_server_props p data
                    in run_ok (Continue p1 (md2\<lparr>md_pageData := Some p1\<rparr>))))))"
    by (rule returns_bind_with[OF server_redirect_step_returns], clarify,
        intro returns_bind returns_let) (auto simp: step_metadata_def)
qed

lemma server_side_props_block_keeps_revalidate:
  "returns (\<lambda>step. md_revalidate (step_metadata step) = md_revalidate md)
     (server_side_props_block env m request rc rl p md)"
  unfolding server_side_props_block_def
  by (intro returns_intros returns_weaken[OF server_side_props_result_keeps_revalidate])
     (simp_all add: step_metadata_def sync_pageData_def split: option.splits)

lemma validateRevalidate_invalid:
  assumes "v \<noteq> JBool False" "v \<noteq> JUndefined" "\<forall>n. v = JNum n \<longrightarrow> \<not> (is_integer n \<and> 0 < n)"
  shows "isl (validateRevalidate v url)"
  using assms by (cases v) (auto simp: validateRevalidate_def)

text \<open>
  Claim C6 says that a result with \<open>revalidate: 10\<close> reports \<open>revalidate = 10\<close> in the
  metadata. With \<open>output: 'export'\<close> in the configuration, \<open>render\<close> throws for every
  truthy \<open>revalidate\<close>: the request fails and there is no metadata.
\<close>

theorem revalidate_with_export_output_fails:
  "fst (render (example_env True default_app_props)
          (example_module ''/post'' (Some (revalidate_props (JNum 10))) None (Some ''export''))
          (example_request ''/post'' node_request)
          (example_render_context ''/post'' [] None) initial_world)
   = Inl IsrOutputExport"
  by code_simp

text \<open>
  Claim C6, amended. For every result of \<open>getStaticProps\<close> that contains a
  \<open>revalidate\<close> key: if \<open>revalidate\<close> is 10, the request fails when the configured
  output is \<open>'export'\<close>, and the metadata of every result that \<open>render\<close> returns
  reports \<open>revalidate = 10\<close>; if \<open>revalidate\<close> is \<open>false\<close>, the metadata of every
  result reports \<open>false\<close>, no revalidation; if \<open>revalidate\<close> is neither \<open>false\<close>,
  a positive integer nor absent (as \<open>-1\<close>), the request fails. \<open>checkRedirectValues\<close>
  is taken to leave the \<open>revalidate\<close> key of the result as it is.
\<close>

theorem revalidate_reported_or_rejected:
  assumes "getStaticProps (pm_userland m) = Some f"
    and "\<not> truthy (get_key (ctx_query (hc_renderOpts (rc_context rc))) ''__nextFallback'')"
    and "f (getStaticProps_context m rc (render_locals_of env m request rc)) = Inr data"
    and "has_key ''revalidate'' data"
    and "\<forall>d url s d'. env_checkRedirectValues env d url s = Inr d' \<longrightarrow>
           map_of d' ''revalidate'' = map_of d ''revalidate''"
  shows "(get_key data ''revalidate'' = JNum 10 \<longrightarrow>
            (cfg_output (pm_config m) = Some ''export'' \<longrightarrow> isl (fst (render env m request rc w)))
          \<and> (\<forall>r. fst (render env m request rc w) = Inr r \<longrightarrow>
                 md_revalidate (rr_metadata r) = Some (JNum 10)))
       \<and> (get_key data ''revalidate'' = JBool False \<longrightarrow>
            (\<forall>r. fst (render env m request rc w) = Inr r \<longrightarrow>
                 md_revalidate (rr_metadata r) = Some (JBool False)))
       \<and> (get_key data ''revalidate'' \<noteq> JBool False \<and>
          get_key data ''revalidate'' \<noteq> JUndefined \<and>
          (\<forall>n. get_key data ''revalidate'' = JNum n \<longrightarrow> \<not> (is_integer n \<and> 0 < n)) \<longrightarrow>
            isl (fst (render env m request rc w)))"
proof -
  let ?rl = "render_locals_of env m request rc"
  let ?v = "validateRevalidate (get_key data ''revalidate'') (req_url request)"
  let ?ok = "\<lambda>md. \<exists>rv. ?v = Inr rv \<and> \<not> (truthy rv \<and> cfg_output (pm_config m) = Some ''export'') \<and>
                       md_revalidate md = Some rv"
  have nofb: "\<not> rl_isFallback ?rl" using assms(2) by simp
  have fetch: "returns (\<lambda>step. ?ok (step_metadata step)) (fetch_page_props env m request rc ?rl)"
  proof (rule fetch_page_props_static_any[OF assms(1) nofb assms(3),
           where ?Q1.0 = "\<lambda>step. ?ok (step_metadata step)"])
    show "returns (\<lambda>step. ?ok (step_metadata step))
            (static_props_result env m request rc ?rl p md data)" for p md
      by (rule static_props_result_revalidate[OF assms(5) assms(4)])
  next
    show "?ok (step_metadata (Continue p md)) \<Longrightarrow>
          returns (\<lambda>step. ?ok (step_metadata step))
            (server_side_props_block env m request rc ?rl p md)" for p md
      by (rule returns_weaken[OF server_side_props_block_keeps_revalidate])
         (simp add: step_metadata_def)
  qed simp
  have result: "returns (\<lambda>r. ?ok (rr_metadata r)) (render env m request rc)"
  proof (rule render_returns[OF fetch])
    show "?ok (step_metadata (Return r)) \<Longrightarrow> ?ok (rr_metadata r)" for r
      by (simp add: step_metadata_def)
  next
    show "?ok (step_metadata (Continue p md)) \<Longrightarrow>
          returns (\<lambda>r. ?ok (rr_metadata r)) (finish_render env m rc ?rl p md)" for p md
      by (rule returns_weaken[OF finish_render_metadata]) (simp add: step_metadata_def)
  qed
  have never: "isl (fst (render env m request rc w))"
    if "\<And>rv. ?v = Inr rv \<Longrightarrow> truthy rv \<and> cfg_output (pm_config m) = Some ''export''"
    by (rule returns_never, rule returns_weaken[OF result]) (use that in auto)
  have ten: "validateRevalidate (JNum 10) (req_url request) = Inr (JNum 10)"
    by (simp add: validateRevalidate_def is_integer_def)
  have off: "validateRevalidate (JBool False) (req_url request) = Inr (JBool False)"
    by (simp add: validateRevalidate_def)
  show ?thesis
  proof (intro conjI impI allI)
    assume v: "get_key data ''revalidate'' = JNum 10"
    {
      assume ex: "cfg_output (pm_config m) = Some ''export''"
      show "isl (fst (render env m request rc w))"
      proof (rule never)
        fix rv
        assume "?v = Inr rv"
        with v ten have "rv = JNum 10" by simp
        with ex show "truthy rv \<and> cfg_output (pm_config m) = Some ''export''" by simp
      qed
    }
    {
      fix r assume "fst (render env m request rc w) = Inr r"
      from returnsD[OF result this] v ten
      show "md_revalidate (rr_metadata r) = Some (JNum 10)" by simp
    }
  next
    fix r
    assume v: "get_key data ''revalidate'' = JBool False"
      and "fst (render env m request rc w) = Inr r"
    from returnsD[OF result this(2)] v off
    show "md_revalidate (rr_metadata r) = Some (JBool False)" by simp
  next
    assume "get_key data ''revalidate'' \<noteq> JBool False \<and>
          get_key data ''revalidate'' \<noteq> JUndefined \<and>
          (\<forall>n. get_key data ''revalidate'' = JNum n \<longrightarrow> \<not> (is_integer n \<and> 0 < n))"
    then have "isl ?v" by (intro validateRevalidate_invalid) simp_all
    then show "isl (fst (render env m request rc w))" by (intro never) auto
  qed
qed

text \<open>\<open>revalidate: 10\<close> is reported by a render that returns, \<open>revalidate: -1\<close>
  fails the request.\<close>

theorem revalidate_reported_or_rejected_witness:
  "has_key ''revalidate'' [(''props'', JObj []), (''revalidate'', JNum 10)]
   \<and> (\<exists>r. fst (render (example_env True default_app_props)
                 (example_module ''/post'' (Some (revalidate_props (JNum 10))) None None)
                 (example_request ''/post'' node_request)
                 (example_render_context ''/post'' [] None) initial_world) = Inr r
           \<and> md_revalidate (rr_metadata r) = Some (JNum 10))
   \<and> isl (fst (render (example_env True default_app_props)
                 (example_module ''/post'' (Some (revalidate_props (JNum (- 1)))) None None)
                 (example_request ''/post'' node_request)
                 (example_render_context ''/post'' [] None) initial_world))"
proof -
  let ?rc = "example_render_context ''/post'' [] None"
  let ?env = "example_env True default_app_props"
  let ?request = "example_request ''/post'' node_request"
  let ?m = "\<lambda>v. example_module ''/post'' (Some (revalidate_props v)) None None"
  let ?data = "\<lambda>v. [(''props'', JObj []), (''revalidate'', v)]"
  have h1: "getStaticProps (pm_userland (?m v)) = Some (revalidate_props v)" for v
    by (simp add: example_module_def example_options_def new_PagesRouteModule_def)
  have h2: "\<not> truthy (get_key (ctx_query (hc_renderOpts (rc_context ?rc))) ''__nextFallback'')"
    by code_simp
  have h3: "revalidate_props v (getStaticProps_context (?m v) ?rc
              (render_locals_of ?env (?m v) ?request ?rc)) = Inr (?data v)" for v
    by (simp add: revalidate_props_def)
  have h4: "has_key ''revalidate'' (?data v)" for v
    by (simp add: has_key_def)
  have h5: "\<forall>d url s d'. env_checkRedirectValues ?env d url s = Inr d' \<longrightarrow>
              map_of d' ''revalidate'' = map_of d ''revalidate''"
    by (simp add: example_env_def)
  have ten: "get_key (?data (JNum 10)) ''revalidate'' = JNum 10"
    by (simp add: get_key_def)
  have neg: "get_key (?data (JNum (- 1))) ''revalidate'' \<noteq> JBool False \<and>
          get_key (?data (JNum (- 1))) ''revalidate'' \<noteq> JUndefined \<and>
          (\<forall>n. get_key (?data (JNum (- 1))) ''revalidate'' = JNum n \<longrightarrow> \<not> (is_integer n \<and> 0 < n))"
    by (simp add: get_key_def)
  have returned: "\<not> isl (fst (render ?env (?m (JNum 10)) ?request ?rc initial_world))"
    by code_simp
  from revalidate_reported_or_rejected[OF h1[of "JNum 10"] h2 h3[of "JNum 10"] h4[of "JNum 10"] h5,
      where w = initial_world] ten
  have "\<forall>r. fst (render ?env (?m (JNum 10)) ?request ?rc initial_world) = Inr r \<longrightarrow>
                 md_revalidate (rr_metadata r) = Some (JNum 10)" by blast
  with returned have a: "\<exists>r. fst (render ?env (?m (JNum 10)) ?request ?rc initial_world) = Inr r
           \<and> md_revalidate (rr_metadata r) = Some (JNum 10)"
    by (cases "fst (render ?env (?m (JNum 10)) ?request ?rc initial_world)") auto
  from revalidate_reported_or_rejected[OF h1[of "JNum (- 1)"] h2 h3[of "JNum (- 1)"]
      h4[of "JNum (- 1)"] h5, where w = initial_world] neg
  have b: "isl (fst (render ?env (?m (JNum (- 1))) ?request ?rc initial_world))" by blast
  from a b h4[of "JNum 10"] show ?thesis by blast
qed

section \<open>Pages that are not found\<close>







section \<open>Computations that leave the world alone\<close>


















section \<open>When each step of the static block passes\<close>

















section \<open>The preview resolver\<close>

text \<open>\<open>tryGetPreviewData\<close> is called only for a page with \<open>getStaticProps\<close> or
  \<open>getServerSideProps\<close>, when the raw request, the function and the prerender manifest
  are there; without the call the preview data stay \<open>undefined\<close> and the preview mode
  is off, and preview data \<open>false\<close> leave the preview mode off.\<close>

lemma resolve_preview_called:
  assumes "PreviewDataRead \<in> set (events_of (resolve_preview env m req hc) w)"
  shows "req \<noteq> None \<and> env_tryGetPreviewData env \<noteq> None \<and> hc_prerender_preview hc \<noteq> None \<and>
         (has_getServerSideProps m \<or> has_getStaticProps m)"
proof (rule ccontr)
  assume "\<not> (req \<noteq> None \<and> env_tryGetPreviewData env \<noteq> None \<and> hc_prerender_preview hc \<noteq> None \<and>
         (has_getServerSideProps m \<or> has_getStaticProps m))"
  then have "resolve_preview env m req hc = run_ok (JUndefined, False)"
    by (cases req; cases "env_tryGetPreviewData env"; cases "hc_prerender_preview hc")
       (auto simp: resolve_preview_def)
  with assms show False by (simp add: events_of_def run_apply)
qed

lemma resolve_preview_result:
  "(PreviewDataRead \<in> set (events_of (resolve_preview env m req hc) w) \<longrightarrow>
      (\<exists>previewData. fst (resolve_preview env m req hc w)
                        = Inr (previewData, previewData \<noteq> JBool False)))
   \<and> (PreviewDataRead \<notin> set (events_of (resolve_preview env m req hc) w) \<longrightarrow>
        fst (resolve_preview env m req hc w) = Inr (JUndefined, False))"
  by (cases req; cases "env_tryGetPreviewData env"; cases "hc_prerender_preview hc";
      cases "has_getServerSideProps m \<or> has_getStaticProps m")
     (simp_all add: resolve_preview_def events_of_def run_apply Let_def)

text \<open>The two data-fetching blocks decide differently whether to tell the user's
  function that the request is a preview: the static block looks at the preview mode,
  the server-side block at the preview data, and \<open>undefined\<close> is not \<open>false\<close>.\<close>

lemma preview_flag_of_undefined_preview_data:
  assumes "\<not> truthy (get_key (ctx_query (hc_renderOpts (rc_context rc))) ''__nextFallback'')"
    and "rc_previewData rc = JUndefined" and "\<not> rc_isPreviewMode rc"
  shows "gsp_preview (getStaticProps_context m rc (render_locals_of env m request rc)) = None"
    and "gssp_preview (getServerSideProps_context m request rc (render_locals_of env m request rc))
           = Some True"
  using assms by (simp_all add: getStaticProps_context_def getServerSideProps_context_def Let_def)

text \<open>
  Claim C9 says that a request for which \<open>tryGetPreviewData\<close> is not invoked proceeds
  in non-preview mode. A page with \<open>getServerSideProps\<close> is handled for a request
  that has no raw request: \<open>tryGetPreviewData\<close> is not called, \<open>isPreviewMode\<close> stays
  false and the payload carries no \<open>isPreview\<close>, but \<open>previewData\<close> is left
  \<open>undefined\<close>, which is not \<open>false\<close>, so \<open>getServerSideProps\<close> is called with
  \<open>preview: true\<close>. The static block tests \<open>isPreview\<close> instead.
\<close>

theorem server_props_told_preview_without_preview_data:
  "req_originalRequest (example_request ''/post'' None) = None
   \<and> list_all (\<lambda>ev. ev \<noteq> PreviewDataRead)
       (events_of (handle (example_env True default_app_props)
                     (example_module ''/post'' None (Some empty_server_props) None)
                     (example_request ''/post'' None) (example_context ''/post'' [] None))
          initial_world)
   \<and> map (\<lambda>c. (gssp_preview c, gssp_previewData c))
       (getServerSideProps_calls
          (events_of (handle (example_env True default_app_props)
                        (example_module ''/post'' None (Some empty_server_props) None)
                        (example_request ''/post'' None) (example_context ''/post'' [] None))
             initial_world))
     = [(Some True, Some JUndefined)]
   \<and> map (\<lambda>nd. nd_isPreview nd)
       (rendered_payloads
          (events_of (handle (example_env True default_app_props)
                        (example_module ''/post'' None (Some empty_server_props) None)
                        (example_request ''/post'' None) (example_context ''/post'' [] None))
             initial_world))
     = [None]"
  by code_simp

end
